theory Spec2Isabelle
  imports Main "HOL-Library.AList"
begin

section \<open>The persistence store\<close>

text \<open>
  The tables the queries of \<^verbatim>\<open>app_finale.py\<close> read and write, one record per row with the
  columns those queries name. The table definitions themselves (\<^verbatim>\<open>schema.sql\<close>) are not
  part of the source: what they decide (constraints checked on insert, generated keys,
  the clock behind \<^verbatim>\<open>CURRENT_TIMESTAMP\<close>) is taken as a parameter, the record \<open>env\<close>
  below. A table is the list of its rows; a \<^verbatim>\<open>SELECT\<close> without \<^verbatim>\<open>ORDER BY\<close> returns the
  matching rows in table order.
\<close>

type_synonym timestamp = int

record users_row =
  u_user_id :: int
  u_email :: string
  u_password_hash :: string
  u_is_admin :: bool
  u_hide_scores :: bool
  u_last_login :: "timestamp option"

record user_profiles_row =
  p_user_id :: int
  p_full_name :: "string option"
  p_age :: "int option"
  p_gender :: "string option"
  p_years_service :: "int option"
  p_department :: "string option"
  p_city :: "string option"
  p_updated_at :: "timestamp option"

record assessment_types_row =
  at_assessment_type_id :: int
  at_code :: string
  at_title :: string

record assessment_questions_row =
  aq_question_id :: int
  aq_assessment_type_id :: int
  aq_question_order :: int
  aq_question_text :: string

record response_options_row =
  ro_option_id :: int
  ro_assessment_type_id :: int
  ro_option_text :: string
  ro_option_value :: int
  ro_option_order :: int

record severity_levels_row =
  sl_severity_id :: int
  sl_assessment_type_id :: int
  sl_min_score :: int
  sl_max_score :: int
  sl_severity_label :: string

record assessment_responses_row =
  ar_response_id :: int
  ar_user_id :: int
  ar_assessment_type_id :: int
  ar_total_score :: int
  ar_severity_id :: int
  ar_created_at :: timestamp

record response_details_row =
  rd_response_id :: int
  rd_question_id :: int
  rd_selected_option_id :: int
  rd_response_value :: int

record db =
  users :: "users_row list"
  user_profiles :: "user_profiles_row list"
  assessment_types :: "assessment_types_row list"
  assessment_questions :: "assessment_questions_row list"
  response_options :: "response_options_row list"
  severity_levels :: "severity_levels_row list"
  assessment_responses :: "assessment_responses_row list"
  response_details :: "response_details_row list"

text \<open>
  What the source leaves to \<^verbatim>\<open>schema.sql\<close>, to the clock and to \<^verbatim>\<open>hashlib\<close>:
  whether the tables accept a row (a violated constraint raises \<^verbatim>\<open>IntegrityError\<close>),
  the key a \<^verbatim>\<open>RETURNING\<close> clause yields, the current time, and SHA-256.
\<close>

record env =
  sha256_hexdigest :: "string \<Rightarrow> string"
  current_timestamp :: timestamp
  users_accept :: "db \<Rightarrow> users_row \<Rightarrow> bool"
  user_profiles_accept :: "db \<Rightarrow> user_profiles_row \<Rightarrow> bool"
  assessment_responses_accept :: "db \<Rightarrow> assessment_responses_row \<Rightarrow> bool"
  response_details_accept :: "db \<Rightarrow> response_details_row \<Rightarrow> bool"
  returning_user_id :: "db \<Rightarrow> int"
  returning_response_id :: "db \<Rightarrow> int"

text \<open>
  A connection holds the committed store and the working copy of the open transaction.
  Statements read and write the working copy; \<open>commit\<close> publishes it, \<open>rollback\<close>
  drops it, and closing the connection (the \<^verbatim>\<open>finally\<close> of \<^verbatim>\<open>get_db_connection\<close>)
  leaves the committed store.
\<close>

record conn =
  committed :: db
  working :: db

definition connect :: "db \<Rightarrow> conn" where
  "connect d = \<lparr>committed = d, working = d\<rparr>"

definition commit :: "conn \<Rightarrow> conn" where
  "commit c = c\<lparr>committed := working c\<rparr>"

definition rollback :: "conn \<Rightarrow> conn" where
  "rollback c = c\<lparr>working := committed c\<rparr>"

definition close :: "conn \<Rightarrow> db" where
  "close c = committed c"

datatype exn =
  TypeError | IntegrityError | ValueError | AttributeError | KeyError | StreamlitAPIException

text \<open>
  \<^verbatim>\<open>cur.fetchone()[0]\<close>: the first row of the result; on an empty result \<^verbatim>\<open>fetchone\<close>
  returns \<^verbatim>\<open>None\<close> and the subscript raises \<^verbatim>\<open>TypeError\<close>.
\<close>

definition fetchone :: "'a list \<Rightarrow> 'a option" where
  "fetchone rows = (case rows of [] \<Rightarrow> None | r # _ \<Rightarrow> Some r)"

definition fetchone_0 :: "'a list \<Rightarrow> exn + 'a" where
  "fetchone_0 rows = (case fetchone rows of None \<Rightarrow> Inl TypeError | Some r \<Rightarrow> Inr r)"

section \<open>History rows, session state and the page\<close>

text \<open>One element of the \<^verbatim>\<open>json_agg\<close> of \<^verbatim>\<open>get_user_assessment_history\<close>.\<close>

record detail =
  d_question :: string
  d_answer :: string
  d_value :: int

record history_row =
  h_response_id :: int
  h_assessment_type :: string
  h_assessment_title :: string
  h_total_score :: int
  h_severity_label :: string
  h_created_at :: timestamp
  h_response_details :: "detail list"

text \<open>
  \<^verbatim>\<open>st.session_state\<close>: the attributes the program sets, each absent (\<open>None\<close>) or
  present. The state Streamlit keeps for keyed widgets is not in it: what the widgets
  return in a run is the record \<open>inputs\<close> below.
\<close>

record session_state =
  current_user :: "int option"
  is_admin :: "bool option"
  is_admin_view :: "bool option"
  section' :: "string option"
  selected_response :: "history_row option"

datatype session_key =
  K_current_user | K_is_admin | K_is_admin_view | K_section | K_selected_response

definition has_key :: "session_state \<Rightarrow> session_key \<Rightarrow> bool" where
  "has_key s k = (case k of
      K_current_user \<Rightarrow> current_user s \<noteq> None
    | K_is_admin \<Rightarrow> is_admin s \<noteq> None
    | K_is_admin_view \<Rightarrow> is_admin_view s \<noteq> None
    | K_section \<Rightarrow> section' s \<noteq> None
    | K_selected_response \<Rightarrow> selected_response s \<noteq> None)"

definition keys :: "session_state \<Rightarrow> session_key list" where
  "keys s = filter (has_key s)
     [K_current_user, K_is_admin, K_is_admin_view, K_section, K_selected_response]"

definition del_key :: "session_key \<Rightarrow> session_state \<Rightarrow> session_state" where
  "del_key k s = (case k of
      K_current_user \<Rightarrow> s\<lparr>current_user := None\<rparr>
    | K_is_admin \<Rightarrow> s\<lparr>is_admin := None\<rparr>
    | K_is_admin_view \<Rightarrow> s\<lparr>is_admin_view := None\<rparr>
    | K_section \<Rightarrow> s\<lparr>section' := None\<rparr>
    | K_selected_response \<Rightarrow> s\<lparr>selected_response := None\<rparr>)"

definition empty_session :: session_state where
  "empty_session = \<lparr>current_user = None, is_admin = None, is_admin_view = None,
     section' = None, selected_response = None\<rparr>"

text \<open>
  Text written to the page. An f-string is the list of its pieces: \<open>StrInt n\<close> is
  \<^verbatim>\<open>str(n)\<close>, \<open>StrTime t\<close> is \<^verbatim>\<open>str(t)\<close> of a timestamp, \<open>Strftime t\<close> is
  \<^verbatim>\<open>t.strftime('%Y-%m-%d %H:%M')\<close> and \<open>StrExn e\<close> is \<^verbatim>\<open>str(e)\<close> of an exception.
\<close>

datatype piece = Lit string | StrInt int | StrTime timestamp | Strftime timestamp | StrExn exn

type_synonym fstring = "piece list"

text \<open>The Streamlit calls of the program, in the order a run makes them.\<close>

datatype ui =
    Title string
  | Header string
  | Subheader fstring
  | Write fstring
  | Error fstring
  | Success string
  | Info string
  | Radio fstring "string list"
  | Form fstring
  | TextInput string string bool
  | PasswordInput string
  | NumberInput string int int int
  | Selectbox string "string list" nat
  | FormSubmitButton string
  | Button string
  | Columns nat
  | ColWrite nat fstring
  | ColButton nat string fstring
  | PlotlyChart "int list" "string list"
  | SidebarHeader string
  | SidebarMarkdown string
  | SidebarCheckbox string bool
  | SidebarRadio string "string list"
  | SidebarSelectbox "(int \<times> string) list"
  | SidebarButton string

record world =
  out :: "ui list"
  sess :: session_state
  store :: db

definition st :: "ui \<Rightarrow> world \<Rightarrow> world" where
  "st e w = w\<lparr>out := out w @ [e]\<rparr>"

section \<open>Saving a response\<close>

text \<open>A submitted answer: \<^verbatim>\<open>(question_id, option_id, value)\<close>.\<close>

type_synonym response = "int \<times> int \<times> int"

definition reverse_scored_questions :: "int list" where
  "reverse_scored_questions = [4, 7]"

text \<open>The three \<^verbatim>\<open>SELECT\<close> statements of \<^verbatim>\<open>save_assessment_response\<close>.\<close>

definition select_code :: "db \<Rightarrow> int \<Rightarrow> string list" where
  "select_code d assessment_type_id =
     [at_code t. t \<leftarrow> assessment_types d, at_assessment_type_id t = assessment_type_id]"

definition select_question_order :: "db \<Rightarrow> int \<Rightarrow> int list" where
  "select_question_order d question_id =
     [aq_question_order q. q \<leftarrow> assessment_questions d, aq_question_id q = question_id]"

definition select_severity_id :: "db \<Rightarrow> int \<Rightarrow> int \<Rightarrow> int list" where
  "select_severity_id d assessment_type_id total_score =
     [sl_severity_id l. l \<leftarrow> severity_levels d,
        sl_assessment_type_id l = assessment_type_id
        \<and> sl_min_score l \<le> total_score \<and> total_score \<le> sl_max_score l]"

text \<open>
  The loop of lines 205 to 222: \<open>adjusted\<close> is \<^verbatim>\<open>adjusted_responses\<close>. The lookup of
  the question's order raises \<^verbatim>\<open>TypeError\<close> when the question does not exist.
\<close>

fun adjust_responses :: "db \<Rightarrow> response list \<Rightarrow> response list \<Rightarrow> exn + response list" where
  "adjust_responses d adjusted [] = Inr adjusted"
| "adjust_responses d adjusted ((question_id, option_id, val) # responses) =
     (case fetchone_0 (select_question_order d question_id) of
        Inl e \<Rightarrow> Inl e
      | Inr question_order \<Rightarrow>
          if question_order \<in> set reverse_scored_questions
          then adjust_responses d (adjusted @ [(question_id, option_id, 6 - val)]) responses
          else adjust_responses d (adjusted @ [(question_id, option_id, val)]) responses)"

text \<open>\<^verbatim>\<open>sum(r[2] for r in responses)\<close>.\<close>

definition sum_values :: "response list \<Rightarrow> int" where
  "sum_values responses = sum_list (map (\<lambda>r. snd (snd r)) responses)"

text \<open>
  Lines 199 to 226: for the code \<^verbatim>\<open>'RELATIONSHIP'\<close> the responses are adjusted and the
  total is recomputed; for every other code both are left as the caller passed them.
\<close>

definition score_responses ::
  "db \<Rightarrow> string \<Rightarrow> response list \<Rightarrow> int \<Rightarrow> exn + (response list \<times> int)" where
  "score_responses d assessment_code responses total_score =
     (if assessment_code = ''RELATIONSHIP''
      then (case adjust_responses d [] responses of
              Inl e \<Rightarrow> Inl e
            | Inr adjusted_responses \<Rightarrow> Inr (adjusted_responses, sum_values adjusted_responses))
      else Inr (responses, total_score))"

text \<open>The row the \<^verbatim>\<open>INSERT\<close> of lines 248 to 252 writes for one answer.\<close>

definition detail_row :: "int \<Rightarrow> response \<Rightarrow> response_details_row" where
  "detail_row response_id r = (case r of (question_id, option_id, val) \<Rightarrow>
     \<lparr>rd_response_id = response_id, rd_question_id = question_id,
      rd_selected_option_id = option_id, rd_response_value = val\<rparr>)"

text \<open>
  The insert loop of lines 247 to 252. A rejected row raises and leaves the
  connection as it was before the statement.
\<close>

fun insert_details :: "env \<Rightarrow> int \<Rightarrow> response list \<Rightarrow> conn \<Rightarrow> exn option \<times> conn" where
  "insert_details E response_id [] c = (None, c)"
| "insert_details E response_id ((question_id, option_id, val) # responses) c =
     (let row = detail_row response_id (question_id, option_id, val)
      in if response_details_accept E (working c) row
         then insert_details E response_id responses
                (c\<lparr>working := (working c)\<lparr>response_details :=
                     response_details (working c) @ [row]\<rparr>\<rparr>)
         else (Some IntegrityError, c))"

text \<open>
  The body of the \<^verbatim>\<open>try\<close> (lines 192 to 255): the exception that left it, if any, and
  the connection at that point.
\<close>

definition save_try ::
  "env \<Rightarrow> int \<Rightarrow> int \<Rightarrow> response list \<Rightarrow> int \<Rightarrow> conn \<Rightarrow> exn option \<times> conn" where
  "save_try E user_id assessment_type_id responses total_score c =
     (case fetchone_0 (select_code (working c) assessment_type_id) of
        Inl e \<Rightarrow> (Some e, c)
      | Inr assessment_code \<Rightarrow>
     (case score_responses (working c) assessment_code responses total_score of
        Inl e \<Rightarrow> (Some e, c)
      | Inr (responses', total_score') \<Rightarrow>
     (case fetchone_0 (select_severity_id (working c) assessment_type_id total_score') of
        Inl e \<Rightarrow> (Some e, c)
      | Inr severity_id \<Rightarrow>
     (let response_id = returning_response_id E (working c);
          row = \<lparr>ar_response_id = response_id, ar_user_id = user_id,
                 ar_assessment_type_id = assessment_type_id, ar_total_score = total_score',
                 ar_severity_id = severity_id, ar_created_at = current_timestamp E\<rparr>
      in if \<not> assessment_responses_accept E (working c) row then (Some IntegrityError, c)
         else (case insert_details E response_id responses'
                      (c\<lparr>working := (working c)\<lparr>assessment_responses :=
                           assessment_responses (working c) @ [row]\<rparr>\<rparr>) of
                 (Some e, c') \<Rightarrow> (Some e, c')
               | (None, c') \<Rightarrow> (None, commit c'))))))"

text \<open>
  \<^verbatim>\<open>save_assessment_response\<close>: the \<^verbatim>\<open>except\<close> rolls back, writes the error to the page
  and returns \<^verbatim>\<open>False\<close>; leaving the \<^verbatim>\<open>with\<close> closes the connection.
\<close>

definition save_assessment_response ::
  "env \<Rightarrow> int \<Rightarrow> int \<Rightarrow> response list \<Rightarrow> int \<Rightarrow> world \<Rightarrow> bool \<times> world" where
  "save_assessment_response E user_id assessment_type_id responses total_score w =
     (case save_try E user_id assessment_type_id responses total_score (connect (store w)) of
        (None, c) \<Rightarrow> (True, w\<lparr>store := close c\<rparr>)
      | (Some e, c) \<Rightarrow>
          (False, (st (Error [Lit ''Error saving assessment: '', StrExn e]) w)
                    \<lparr>store := close (rollback c)\<rparr>))"

section \<open>The history of a user\<close>

text \<open>
  The six inner joins of \<^verbatim>\<open>get_user_assessment_history\<close>: one element per joined row,
  the \<^verbatim>\<open>GROUP BY\<close> columns first, then the object \<^verbatim>\<open>json_agg\<close> collects.
\<close>

type_synonym history_key = "int \<times> string \<times> string \<times> int \<times> string \<times> timestamp"

definition history_join :: "db \<Rightarrow> int \<Rightarrow> (history_key \<times> detail) list" where
  "history_join d user_id =
     [((ar_response_id ar, at_code t, at_title t, ar_total_score ar,
        sl_severity_label sl, ar_created_at ar),
       \<lparr>d_question = aq_question_text aq, d_answer = ro_option_text ro,
        d_value = rd_response_value rd\<rparr>).
      ar \<leftarrow> assessment_responses d, ar_user_id ar = user_id,
      t \<leftarrow> assessment_types d, ar_assessment_type_id ar = at_assessment_type_id t,
      sl \<leftarrow> severity_levels d, ar_severity_id ar = sl_severity_id sl,
      rd \<leftarrow> response_details d, ar_response_id ar = rd_response_id rd,
      aq \<leftarrow> assessment_questions d, rd_question_id rd = aq_question_id aq,
      ro \<leftarrow> response_options d, rd_selected_option_id rd = ro_option_id ro]"

definition history_group :: "(history_key \<times> detail) list \<Rightarrow> history_key \<Rightarrow> history_row" where
  "history_group rows k = (case k of (response_id, code, title, total_score, label, created_at) \<Rightarrow>
     \<lparr>h_response_id = response_id, h_assessment_type = code, h_assessment_title = title,
      h_total_score = total_score, h_severity_label = label, h_created_at = created_at,
      h_response_details = [dt. (k', dt) \<leftarrow> rows, k' = k]\<rparr>)"

text \<open>
  One row per group, \<^verbatim>\<open>ORDER BY ar.created_at DESC\<close>. The order of rows created at
  the same time is the store's choice; here it is the order of the groups.
\<close>

definition get_user_assessment_history :: "db \<Rightarrow> int \<Rightarrow> history_row list" where
  "get_user_assessment_history d user_id =
     (let rows = history_join d user_id
      in sort_key (\<lambda>h. - h_created_at h) (map (history_group rows) (remdups (map fst rows))))"

section \<open>Users and profiles\<close>

text \<open>\<^verbatim>\<open>dict(cur.fetchone())\<close> raises \<^verbatim>\<open>TypeError\<close> when no row matches.\<close>

definition get_user_settings :: "db \<Rightarrow> int \<Rightarrow> exn + (bool \<times> bool)" where
  "get_user_settings d user_id =
     (case fetchone [(u_is_admin u, u_hide_scores u). u \<leftarrow> users d, u_user_id u = user_id] of
        None \<Rightarrow> Inl TypeError
      | Some r \<Rightarrow> Inr r)"

definition get_user_profile :: "db \<Rightarrow> int \<Rightarrow> exn + (string \<times> user_profiles_row)" where
  "get_user_profile d user_id =
     (case fetchone [(u_email u, p). u \<leftarrow> users d, p \<leftarrow> user_profiles d,
                      u_user_id u = p_user_id p, u_user_id u = user_id] of
        None \<Rightarrow> Inl TypeError
      | Some r \<Rightarrow> Inr r)"

definition update_user_profile ::
  "env \<Rightarrow> int \<Rightarrow> string \<Rightarrow> int \<Rightarrow> string \<Rightarrow> int \<Rightarrow> string \<Rightarrow> string \<Rightarrow> db \<Rightarrow> db" where
  "update_user_profile E user_id name age gender years_service department city d =
     d\<lparr>user_profiles := map (\<lambda>p. if p_user_id p = user_id
          then p\<lparr>p_full_name := Some name, p_age := Some age, p_gender := Some gender,
                 p_years_service := Some years_service, p_department := Some department,
                 p_city := Some city, p_updated_at := Some (current_timestamp E)\<rparr>
          else p) (user_profiles d)\<rparr>"

definition hash_password :: "env \<Rightarrow> string \<Rightarrow> string" where
  "hash_password E password = sha256_hexdigest E password"

text \<open>
  \<^verbatim>\<open>register_user\<close>: two inserts in one transaction; \<^verbatim>\<open>IntegrityError\<close> is caught,
  rolled back and reported as \<^verbatim>\<open>False\<close>.
\<close>

definition register_user ::
  "env \<Rightarrow> string \<Rightarrow> string \<Rightarrow> string \<Rightarrow> string \<Rightarrow> world \<Rightarrow> bool \<times> world" where
  "register_user E email password department city w =
     (let c = connect (store w);
          user_id = returning_user_id E (working c);
          urow = \<lparr>u_user_id = user_id, u_email = email,
                  u_password_hash = hash_password E password, u_is_admin = False,
                  u_hide_scores = False, u_last_login = None\<rparr>
      in if \<not> users_accept E (working c) urow then (False, w\<lparr>store := close (rollback c)\<rparr>)
         else
           (let c = c\<lparr>working := (working c)\<lparr>users := users (working c) @ [urow]\<rparr>\<rparr>;
                prow = \<lparr>p_user_id = user_id, p_full_name = None, p_age = None,
                        p_gender = None, p_years_service = None,
                        p_department = Some department, p_city = Some city,
                        p_updated_at = None\<rparr>
            in if \<not> user_profiles_accept E (working c) prow
               then (False, w\<lparr>store := close (rollback c)\<rparr>)
               else
                 (let c = commit (c\<lparr>working := (working c)\<lparr>user_profiles :=
                                       user_profiles (working c) @ [prow]\<rparr>\<rparr>)
                  in (True, w\<lparr>sess := (sess w)\<lparr>current_user := Some user_id,
                                                  is_admin := Some False\<rparr>,
                               store := close c\<rparr>))))"

definition login_user :: "env \<Rightarrow> string \<Rightarrow> string \<Rightarrow> world \<Rightarrow> bool \<times> world" where
  "login_user E email password w =
     (case fetchone [(u_user_id u, u_is_admin u). u \<leftarrow> users (store w),
                      u_email u = email \<and> u_password_hash u = hash_password E password] of
        Some (user_id, admin) \<Rightarrow>
          (True, w\<lparr>sess := (sess w)\<lparr>current_user := Some user_id, is_admin := Some admin,
                                     is_admin_view := Some admin\<rparr>,
                   store := (store w)\<lparr>users := map (\<lambda>u. if u_user_id u = user_id
                        then u\<lparr>u_last_login := Some (current_timestamp E)\<rparr> else u)
                        (users (store w))\<rparr>\<rparr>)
      | None \<Rightarrow> (False, w))"

section \<open>What the widgets return in one run\<close>

text \<open>
  One run of the script sees one value per widget. \<open>None\<close> is a widget the user has
  not touched, which returns its default; a button is \<open>True\<close> in the run its click
  starts.
\<close>

record inputs =
  auth_option :: "string option"
  text_input :: "string \<Rightarrow> string \<Rightarrow> string option"
  number_input :: "string \<Rightarrow> int option"
  selectbox_gender :: "string option"
  form_submit_button :: "fstring \<Rightarrow> bool"
  admin_view_toggle :: "bool option"
  main_menu :: "string option"
  select_assessment :: "(int \<times> string) option"
  question_radio :: "int \<Rightarrow> string option"
  view_response_button :: "int \<Rightarrow> bool"
  close_button :: bool
  logout_button :: bool

text \<open>A radio or select box returns one of its options, the one at \<open>index\<close> by default.\<close>

definition choice :: "'a list \<Rightarrow> nat \<Rightarrow> 'a option \<Rightarrow> 'a" where
  "choice options index picked =
     (case picked of Some x \<Rightarrow> if x \<in> set options then x else options ! index
                   | None \<Rightarrow> options ! index)"

definition typed :: "string \<Rightarrow> string option \<Rightarrow> string" where
  "typed initial entered = (case entered of Some x \<Rightarrow> x | None \<Rightarrow> initial)"

text \<open>How a script run ends: it returns, it asks for a rerun, or an exception leaves it.\<close>

datatype status = Done | Rerun | Raised exn

section \<open>Login and sign-up pages\<close>

definition render_login :: "env \<Rightarrow> inputs \<Rightarrow> world \<Rightarrow> status \<times> world" where
  "render_login E inp w =
     (let w = st (Subheader [Lit ''Login'']) w;
          w = st (Form [Lit ''login_form'']) w;
          w = st (TextInput ''Email'' '''' False) w;
          email = typed '''' (text_input inp ''login_form'' ''Email'');
          w = st (PasswordInput ''Password'') w;
          password = typed '''' (text_input inp ''login_form'' ''Password'');
          w = st (FormSubmitButton ''Login'') w
      in if form_submit_button inp [Lit ''login_form'']
         then (case login_user E email password w of
                 (True, w) \<Rightarrow> (Rerun, st (Success ''Login successful!'') w)
               | (False, w) \<Rightarrow> (Done, st (Error [Lit ''Invalid email or password'']) w))
         else (Done, w))"

definition render_signup :: "env \<Rightarrow> inputs \<Rightarrow> world \<Rightarrow> status \<times> world" where
  "render_signup E inp w =
     (let w = st (Subheader [Lit ''Sign Up'']) w;
          w = st (Form [Lit ''signup_form'']) w;
          w = st (TextInput ''Email'' '''' False) w;
          email = typed '''' (text_input inp ''signup_form'' ''Email'');
          w = st (PasswordInput ''Password'') w;
          password = typed '''' (text_input inp ''signup_form'' ''Password'');
          w = st (TextInput ''Department'' '''' False) w;
          department = typed '''' (text_input inp ''signup_form'' ''Department'');
          w = st (TextInput ''City'' '''' False) w;
          city = typed '''' (text_input inp ''signup_form'' ''City'');
          w = st (FormSubmitButton ''Sign Up'') w
      in if form_submit_button inp [Lit ''signup_form'']
         then (case register_user E email password department city w of
                 (True, w) \<Rightarrow> (Rerun, st (Success ''Registration successful!'') w)
               | (False, w) \<Rightarrow> (Done, st (Error [Lit ''Email already exists'']) w))
         else (Done, w))"

section \<open>The profile page\<close>

text \<open>Python's \<^verbatim>\<open>x or d\<close> on an optional string and on an optional number.\<close>

definition or_str :: "string option \<Rightarrow> string \<Rightarrow> string" where
  "or_str x d = (case x of None \<Rightarrow> d | Some s \<Rightarrow> if s = [] then d else s)"

definition or_int :: "int option \<Rightarrow> int \<Rightarrow> int" where
  "or_int x d = (case x of None \<Rightarrow> d | Some n \<Rightarrow> if n = 0 then d else n)"

text \<open>\<^verbatim>\<open>list.index\<close>, which raises \<^verbatim>\<open>ValueError\<close> on a missing element.\<close>

fun index_of :: "'a list \<Rightarrow> 'a \<Rightarrow> nat option" where
  "index_of [] x = None"
| "index_of (y # ys) x = (if x = y then Some 0 else map_option Suc (index_of ys x))"

text \<open>What a number input returns: the entered value when it is in range, else the initial one.\<close>

definition entered :: "int \<Rightarrow> int \<Rightarrow> int \<Rightarrow> int option \<Rightarrow> int" where
  "entered lo hi initial v =
     (case v of Some n \<Rightarrow> if lo \<le> n \<and> n \<le> hi then n else initial | None \<Rightarrow> initial)"

definition genders :: "string list" where
  "genders = [''Male'', ''Female'', ''Other'']"

text \<open>
  \<^verbatim>\<open>render_profile\<close>. A number input whose initial value is outside its bounds raises
  Streamlit's API exception; the gender stored must be one of the three options.
\<close>

definition render_profile :: "env \<Rightarrow> inputs \<Rightarrow> world \<Rightarrow> status \<times> world" where
  "render_profile E inp w =
     (let w = st (Header ''Profile'') w
      in case current_user (sess w) of
           None \<Rightarrow> (Raised AttributeError, w)
         | Some user_id \<Rightarrow>
      (case get_user_profile (store w) user_id of
           Inl e \<Rightarrow> (Raised e, w)
         | Inr (email, p) \<Rightarrow>
      (let w = st (Form [Lit ''edit_profile'']) w;
           w = st (TextInput ''Email'' email True) w;
           w = st (TextInput ''Full Name'' (or_str (p_full_name p) '''') False) w;
           name = typed (or_str (p_full_name p) '''') (text_input inp ''edit_profile'' ''Full Name'');
           age0 = or_int (p_age p) 18
       in if age0 < 18 \<or> 100 < age0 then (Raised StreamlitAPIException, w)
          else
      (let w = st (NumberInput ''Age'' 18 100 age0) w;
           age = entered 18 100 age0 (number_input inp ''Age'')
       in case index_of genders (or_str (p_gender p) ''Male'') of
            None \<Rightarrow> (Raised ValueError, w)
          | Some i \<Rightarrow>
      (let w = st (Selectbox ''Gender'' genders i) w;
           gender = choice genders i (selectbox_gender inp);
           years0 = or_int (p_years_service p) 0
       in if years0 < 0 \<or> 50 < years0 then (Raised StreamlitAPIException, w)
          else
      (let w = st (NumberInput ''Years of Service'' 0 50 years0) w;
           years_service = entered 0 50 years0 (number_input inp ''Years of Service'');
           w = st (TextInput ''Fire Department'' (or_str (p_department p) '''') False) w;
           department = typed (or_str (p_department p) '''')
                          (text_input inp ''edit_profile'' ''Fire Department'');
           w = st (TextInput ''City'' (or_str (p_city p) '''') False) w;
           city = typed (or_str (p_city p) '''') (text_input inp ''edit_profile'' ''City'');
           w = st (FormSubmitButton ''Update Profile'') w
       in if form_submit_button inp [Lit ''edit_profile'']
          then (Rerun, st (Success ''Profile updated successfully!'')
                  (w\<lparr>store := update_user_profile E user_id name age gender years_service
                                 department city (store w)\<rparr>))
          else (Done, w)))))))"

section \<open>The questionnaire\<close>

text \<open>
  \<^verbatim>\<open>get_assessment_questions\<close>: the questions of the type that have an option of the
  same type, by \<^verbatim>\<open>question_order\<close>, each with those options by \<^verbatim>\<open>option_order\<close>.
  The inner join leaves no question without options, so the \<^verbatim>\<open>options is None\<close>
  branch of the form loop is never taken.
\<close>

definition get_assessment_questions ::
  "db \<Rightarrow> int \<Rightarrow> (assessment_questions_row \<times> response_options_row list) list" where
  "get_assessment_questions d assessment_type_id =
     [(q, sort_key ro_option_order
            [opt. opt \<leftarrow> response_options d,
                  aq_assessment_type_id q = ro_assessment_type_id opt]).
      q \<leftarrow> sort_key aq_question_order (assessment_questions d),
      aq_assessment_type_id q = assessment_type_id,
      \<exists>opt \<in> set (response_options d). aq_assessment_type_id q = ro_assessment_type_id opt]"

text \<open>\<^verbatim>\<open>{opt['text']: opt for opt in question['options']}\<close>, in insertion order.\<close>

definition options_dict :: "response_options_row list \<Rightarrow> (string \<times> response_options_row) list" where
  "options_dict opts = fold (\<lambda>opt m. AList.update (ro_option_text opt) opt m) opts []"

text \<open>
  The loop of lines 371 to 392 over the questions: the answers collected so far and
  the dictionary \<^verbatim>\<open>questions_answered\<close>.
\<close>

fun ask_questions ::
  "inputs \<Rightarrow> (assessment_questions_row \<times> response_options_row list) list \<Rightarrow>
   response list \<Rightarrow> (int \<times> bool) list \<Rightarrow> world \<Rightarrow>
   exn option \<times> response list \<times> (int \<times> bool) list \<times> world" where
  "ask_questions inp [] responses questions_answered w = (None, responses, questions_answered, w)"
| "ask_questions inp ((q, opts) # rest) responses questions_answered w =
     (let options = options_dict opts;
          choices = ''Select an option'' # map fst options;
          w = st (Radio [Lit (aq_question_text q)] choices) w;
          response = choice choices 0 (question_radio inp (aq_question_id q));
          questions_answered = AList.update (aq_question_id q)
                                 (response \<noteq> ''Select an option'') questions_answered
      in if response \<noteq> ''Select an option''
         then (case map_of options response of
                 None \<Rightarrow> (Some KeyError, responses, questions_answered, w)
               | Some opt \<Rightarrow>
                   ask_questions inp rest
                     (responses @ [(aq_question_id q, ro_option_id opt, ro_option_value opt)])
                     questions_answered w)
         else ask_questions inp rest responses questions_answered w)"

definition render_questionnaire :: "env \<Rightarrow> inputs \<Rightarrow> int \<Rightarrow> world \<Rightarrow> status \<times> world" where
  "render_questionnaire E inp assessment_type_id w =
     (let assessment_data = get_assessment_questions (store w) assessment_type_id
      in if assessment_data = [] then (Done, st (Error [Lit ''Assessment not found'']) w)
         else
      (case fetchone [at_title t. t \<leftarrow> assessment_types (store w),
                        at_assessment_type_id t = assessment_type_id] of
         None \<Rightarrow> (Raised TypeError, w)
       | Some assessment_title \<Rightarrow>
      (let w = st (Subheader [Lit assessment_title]) w;
           w = st (Form [Lit ''questionnaire_form_'', StrInt assessment_type_id]) w
       in case ask_questions inp assessment_data [] [] w of
            (Some e, responses, questions_answered, w) \<Rightarrow> (Raised e, w)
          | (None, responses, questions_answered, w) \<Rightarrow>
      (let w = st (FormSubmitButton ''Submit Assessment'') w
       in if form_submit_button inp [Lit ''questionnaire_form_'', StrInt assessment_type_id]
          then
            if \<not> list_all snd questions_answered
            then (Done, st (Error [Lit ''Please answer all questions before submitting.'']) w)
            else
              (let total_score = sum_values responses
               in case current_user (sess w) of
                    None \<Rightarrow> (Raised AttributeError, w)
                  | Some user_id \<Rightarrow>
                      (case save_assessment_response E user_id assessment_type_id
                              responses total_score w of
                         (True, w) \<Rightarrow>
                           (Rerun, (st (Success ''Thank you for completing the assessment!'') w)
                                     \<lparr>sess := (sess w)\<lparr>section' := Some ''Dashboard''\<rparr>\<rparr>)
                       | (False, w) \<Rightarrow> (Done, w)))
          else (Done, w)))))"

section \<open>The dashboard\<close>

text \<open>The loop of lines 430 to 433 that builds the two series of the radar chart.\<close>

fun radar_series :: "history_row list \<Rightarrow> string list \<Rightarrow> int list \<Rightarrow> string list \<times> int list" where
  "radar_series [] categories scores = (categories, scores)"
| "radar_series (response # rest) categories scores =
     (if h_assessment_type response \<notin> set categories
      then radar_series rest (categories @ [h_assessment_type response])
             (scores @ [h_total_score response])
      else radar_series rest categories scores)"

text \<open>
  The loop of lines 469 to 482, one table line per history row. \<open>admin\<close> is
  \<^verbatim>\<open>is_admin_view and user_settings['is_admin']\<close>.
\<close>

fun history_table :: "bool \<Rightarrow> inputs \<Rightarrow> history_row list \<Rightarrow> world \<Rightarrow> world" where
  "history_table admin inp [] w = w"
| "history_table admin inp (response # rest) w =
     (let w = st (ColWrite 1 [Lit (h_assessment_title response)]) w;
          w = (if admin
               then st (ColWrite 3 [Lit (h_severity_label response)])
                      (st (ColWrite 2 [StrInt (h_total_score response)]) w)
               else
                 (let w = st (ColWrite 2 [Lit ''Completed'']) w;
                      w = st (ColButton 3 ''View Responses''
                                [Lit ''view_response_'', StrInt (h_response_id response)]) w
                  in if view_response_button inp (h_response_id response)
                     then w\<lparr>sess := (sess w)\<lparr>selected_response := Some response\<rparr>\<rparr>
                     else w));
          w = st (ColWrite 4 [Strftime (h_created_at response)]) w
      in history_table admin inp rest w)"

text \<open>The loop of lines 496 to 498 over the details of the selected response.\<close>

fun write_details :: "detail list \<Rightarrow> world \<Rightarrow> world" where
  "write_details [] w = w"
| "write_details (dt # rest) w =
     write_details rest (st (Write [Lit ''**A:** '', Lit (d_answer dt)])
                           (st (Write [Lit ''**Q:** '', Lit (d_question dt)]) w))"

text \<open>Lines 485 to 501: the details of the response held in the session, if any.\<close>

definition response_details_view :: "bool \<Rightarrow> inputs \<Rightarrow> world \<Rightarrow> world" where
  "response_details_view admin inp w =
     (case selected_response (sess w) of
        None \<Rightarrow> w
      | Some response \<Rightarrow>
          (let w = st (Subheader [Lit ''Response Details - '', Lit (h_assessment_title response)]) w;
               w = st (Write [Lit ''Date: '', StrTime (h_created_at response)]) w;
               w = (if admin
                    then st (Write [Lit ''Result: '', Lit (h_severity_label response)])
                           (st (Write [Lit ''Score: '', StrInt (h_total_score response)]) w)
                    else w);
               w = st (Subheader [Lit ''Responses:'']) w;
               w = write_details (h_response_details response) w;
               w = st (Button ''Close'') w
           in if close_button inp then w\<lparr>sess := (sess w)\<lparr>selected_response := None\<rparr>\<rparr>
              else w))"

text \<open>
  Lines 418 to 503 of \<^verbatim>\<open>render_dashboard\<close>: what is written to the page from the
  profile, the \<^verbatim>\<open>is_admin\<close> setting and the history that its first three lines fetch.
\<close>

definition dashboard_page ::
  "string \<times> user_profiles_row \<Rightarrow> bool \<Rightarrow> history_row list \<Rightarrow> inputs \<Rightarrow> world \<Rightarrow> world" where
  "dashboard_page user_profile user_is_admin assessment_history inp w =
     (let w = st (Header ''Dashboard'') w;
          w = st (Subheader [Lit ''Welcome, '',
                             Lit (or_str (p_full_name (snd user_profile)) (fst user_profile))]) w;
          admin_view = (case is_admin_view (sess w) of None \<Rightarrow> True | Some b \<Rightarrow> b);
          admin = (admin_view \<and> user_is_admin)
      in if assessment_history \<noteq> []
         then
           (let w = (if admin
                     then (case radar_series assessment_history [] [] of
                             (categories, scores) \<Rightarrow> st (PlotlyChart scores categories) w)
                     else w);
                w = st (Subheader [Lit ''Assessment History'']) w;
                w = st (Columns 4) w;
                w = st (ColWrite 1 [Lit ''**Assessment Type**'']) w;
                w = (if admin
                     then st (ColWrite 3 [Lit ''**Result**''])
                            (st (ColWrite 2 [Lit ''**Score**'']) w)
                     else st (ColWrite 3 [Lit ''**Responses**''])
                            (st (ColWrite 2 [Lit ''**Status**'']) w));
                w = st (ColWrite 4 [Lit ''**Date**'']) w;
                w = history_table admin inp assessment_history w
            in response_details_view admin inp w)
         else st (Info ''No assessments completed yet.'') w)"

definition render_dashboard :: "inputs \<Rightarrow> world \<Rightarrow> status \<times> world" where
  "render_dashboard inp w =
     (case current_user (sess w) of
        None \<Rightarrow> (Raised AttributeError, w)
      | Some user_id \<Rightarrow>
     (case get_user_profile (store w) user_id of
        Inl e \<Rightarrow> (Raised e, w)
      | Inr user_profile \<Rightarrow>
     (case get_user_settings (store w) user_id of
        Inl e \<Rightarrow> (Raised e, w)
      | Inr (user_is_admin, user_hide_scores) \<Rightarrow>
          (Done, dashboard_page user_profile user_is_admin
                   (get_user_assessment_history (store w) user_id) inp w))))"

section \<open>The script\<close>

definition get_assessment_types :: "db \<Rightarrow> assessment_types_row list" where
  "get_assessment_types d = sort_key at_assessment_type_id (assessment_types d)"

text \<open>The loop of lines 567 and 568: delete every key of the session state.\<close>

definition logout :: "session_state \<Rightarrow> session_state" where
  "logout s = fold del_key (keys s) s"

text \<open>
  Lines 520 to 563 of \<^verbatim>\<open>main\<close>: the sidebar, and the section it selects. The label of
  the check box is written without its emoji.
\<close>

definition navigation :: "env \<Rightarrow> inputs \<Rightarrow> world \<Rightarrow> status \<times> world" where
  "navigation E inp w =
     (let w = st (SidebarHeader ''Navigation'') w;
          (toggled, w) =
            (if (case is_admin (sess w) of None \<Rightarrow> False | Some b \<Rightarrow> b)
             then
               (let w = st (SidebarMarkdown ''---'') w;
                    shown = (case is_admin_view (sess w) of None \<Rightarrow> True | Some b \<Rightarrow> b);
                    w = st (SidebarCheckbox ''Admin View'' shown) w;
                    admin_view = (case admin_view_toggle inp of None \<Rightarrow> shown | Some b \<Rightarrow> b)
                in if is_admin_view (sess w) \<noteq> Some admin_view
                   then (True, w\<lparr>sess := (sess w)\<lparr>is_admin_view := Some admin_view\<rparr>\<rparr>)
                   else (False, st (SidebarMarkdown ''---'') w))
             else (False, w))
      in if toggled then (Rerun, w)
         else
           (let menu = [''Dashboard'', ''Assessments'', ''Profile''];
                w = st (SidebarRadio ''Main Menu'' menu) w;
                section = (case section' (sess w) of
                             None \<Rightarrow> choice menu 0 (main_menu inp)
                           | Some s \<Rightarrow> s);
                w = w\<lparr>sess := (sess w)\<lparr>section' := None\<rparr>\<rparr>
            in if section = ''Dashboard'' then render_dashboard inp w
               else if section = ''Assessments''
               then
                 (let assessment_types = get_assessment_types (store w)
                  in if assessment_types \<noteq> []
                     then
                       (let options = map (\<lambda>t. (at_assessment_type_id t, at_title t))
                                        assessment_types;
                            w = st (SidebarSelectbox options) w;
                            assessment_type = choice options 0 (select_assessment inp)
                        in render_questionnaire E inp (fst assessment_type) w)
                     else (Done, st (Error [Lit ''No assessments available'']) w))
               else if section = ''Profile'' then render_profile E inp w
               else (Done, w)))"

text \<open>
  One run of \<^verbatim>\<open>main\<close> on the widget values \<open>inp\<close>. \<^verbatim>\<open>init_database\<close> creates the
  tables when they are missing and changes nothing else; the store here has them.
  The ``Logout'' button is reached when the section returns; a rerun or an exception
  ends the run before it.
\<close>

definition main :: "env \<Rightarrow> inputs \<Rightarrow> world \<Rightarrow> status \<times> world" where
  "main E inp w =
     (let w = st (Title ''Mental Health Assessment Platform'') w
      in if current_user (sess w) = None
         then
           (let w = st (Radio [Lit ''Choose an option:''] [''Login'', ''Sign Up'']) w
            in if choice [''Login'', ''Sign Up''] 0 (auth_option inp) = ''Login''
               then render_login E inp w
               else render_signup E inp w)
         else
           (case navigation E inp w of
              (Done, w) \<Rightarrow>
                (let w = st (SidebarButton ''Logout'') w
                 in if logout_button inp then (Rerun, w\<lparr>sess := logout (sess w)\<rparr>)
                    else (Done, w))
            | (Rerun, w) \<Rightarrow> (Rerun, w)
            | (Raised e, w) \<Rightarrow> (Raised e, w)))"

section \<open>Example data\<close>

text \<open>
  A store with two assessment types, a questionnaire of seven questions for the first
  and of two for the second, an administrator (user 1) and a regular user (user 2).
\<close>

definition env0 :: env where
  "env0 = \<lparr>sha256_hexdigest = (\<lambda>p. ''#'' @ p), current_timestamp = 1000,
     users_accept = (\<lambda>d r. u_email r \<notin> set (map u_email (users d))),
     user_profiles_accept = (\<lambda>d r. True),
     assessment_responses_accept = (\<lambda>d r. True),
     response_details_accept = (\<lambda>d r. True),
     returning_user_id = (\<lambda>d. int (length (users d)) + 1),
     returning_response_id = (\<lambda>d. int (length (assessment_responses d)) + 1)\<rparr>"

text \<open>The same, with a foreign key from \<^verbatim>\<open>response_details\<close> to \<^verbatim>\<open>assessment_questions\<close>.\<close>

definition env_fk :: env where
  "env_fk = env0\<lparr>response_details_accept :=
     (\<lambda>d r. rd_question_id r \<in> set (map aq_question_id (assessment_questions d)))\<rparr>"

definition db0 :: db where
  "db0 = \<lparr>
     users =
       [\<lparr>u_user_id = 1, u_email = ''chief@example.org'', u_password_hash = ''#pw1'',
         u_is_admin = True, u_hide_scores = False, u_last_login = None\<rparr>,
        \<lparr>u_user_id = 2, u_email = ''crew@example.org'', u_password_hash = ''#pw2'',
         u_is_admin = False, u_hide_scores = False, u_last_login = None\<rparr>],
     user_profiles =
       [\<lparr>p_user_id = 1, p_full_name = Some ''Chief'', p_age = Some 50, p_gender = Some ''Female'',
         p_years_service = Some 25, p_department = Some ''Station 1'', p_city = Some ''Springfield'',
         p_updated_at = None\<rparr>,
        \<lparr>p_user_id = 2, p_full_name = None, p_age = None, p_gender = None,
         p_years_service = None, p_department = Some ''Station 1'', p_city = Some ''Springfield'',
         p_updated_at = None\<rparr>],
     assessment_types =
       [\<lparr>at_assessment_type_id = 1, at_code = ''RELATIONSHIP'', at_title = ''Relationship''\<rparr>,
        \<lparr>at_assessment_type_id = 2, at_code = ''STRESS'', at_title = ''Stress''\<rparr>],
     assessment_questions =
       map (\<lambda>n. \<lparr>aq_question_id = 100 + n, aq_assessment_type_id = 1,
                  aq_question_order = n, aq_question_text = ''R''\<rparr>) [1, 2, 3, 4, 5, 6, 7]
       @ map (\<lambda>n. \<lparr>aq_question_id = 200 + n, aq_assessment_type_id = 2,
                    aq_question_order = n, aq_question_text = ''S''\<rparr>) [1, 2],
     response_options =
       [\<lparr>ro_option_id = 1, ro_assessment_type_id = 1, ro_option_text = ''Never'',
         ro_option_value = 1, ro_option_order = 1\<rparr>,
        \<lparr>ro_option_id = 2, ro_assessment_type_id = 1, ro_option_text = ''Rarely'',
         ro_option_value = 2, ro_option_order = 2\<rparr>,
        \<lparr>ro_option_id = 3, ro_assessment_type_id = 1, ro_option_text = ''Sometimes'',
         ro_option_value = 3, ro_option_order = 3\<rparr>,
        \<lparr>ro_option_id = 4, ro_assessment_type_id = 1, ro_option_text = ''Often'',
         ro_option_value = 4, ro_option_order = 4\<rparr>,
        \<lparr>ro_option_id = 5, ro_assessment_type_id = 1, ro_option_text = ''Always'',
         ro_option_value = 5, ro_option_order = 5\<rparr>,
        \<lparr>ro_option_id = 11, ro_assessment_type_id = 2, ro_option_text = ''No'',
         ro_option_value = 0, ro_option_order = 1\<rparr>,
        \<lparr>ro_option_id = 12, ro_assessment_type_id = 2, ro_option_text = ''Yes'',
         ro_option_value = 3, ro_option_order = 2\<rparr>],
     severity_levels =
       [\<lparr>sl_severity_id = 1, sl_assessment_type_id = 1, sl_min_score = 7,
         sl_max_score = 20, sl_severity_label = ''Low''\<rparr>,
        \<lparr>sl_severity_id = 2, sl_assessment_type_id = 1, sl_min_score = 21,
         sl_max_score = 35, sl_severity_label = ''High''\<rparr>,
        \<lparr>sl_severity_id = 3, sl_assessment_type_id = 2, sl_min_score = 0,
         sl_max_score = 3, sl_severity_label = ''Mild''\<rparr>,
        \<lparr>sl_severity_id = 4, sl_assessment_type_id = 2, sl_min_score = 3,
         sl_max_score = 5, sl_severity_label = ''Severe''\<rparr>],
     assessment_responses = [],
     response_details = []\<rparr>"

definition session2 :: session_state where
  "session2 = \<lparr>current_user = Some 2, is_admin = Some False, is_admin_view = Some False,
     section' = None, selected_response = None\<rparr>"

definition w0 :: world where
  "w0 = \<lparr>out = [], sess = session2, store = db0\<rparr>"

text \<open>The seven answers of the scenario, at the ordinal positions 1 to 7.\<close>

definition answers7 :: "response list" where
  "answers7 = [(101, 5, 5), (102, 4, 4), (103, 3, 3), (104, 2, 2), (105, 1, 1),
               (106, 3, 3), (107, 4, 4)]"

definition no_inputs :: inputs where
  "no_inputs = \<lparr>auth_option = None, text_input = (\<lambda>form label. None),
     number_input = (\<lambda>label. None), selectbox_gender = None,
     form_submit_button = (\<lambda>form. False), admin_view_toggle = None, main_menu = None,
     select_assessment = None, question_radio = (\<lambda>question_id. None),
     view_response_button = (\<lambda>response_id. False), close_button = False,
     logout_button = False\<rparr>"

text \<open>The second questionnaire answered ``Yes'' and ``No'' and submitted.\<close>

definition stress_inputs :: inputs where
  "stress_inputs = no_inputs\<lparr>
     question_radio := (\<lambda>question_id. if question_id = 201 then Some ''Yes''
                          else if question_id = 202 then Some ''No'' else None),
     form_submit_button := (\<lambda>form. form = [Lit ''questionnaire_form_'', StrInt 2])\<rparr>"

text \<open>
  The example store after user 2 has saved the seven answers, and the click on
  ``View Responses'' of that response.
\<close>

definition w1 :: world where
  "w1 = (snd (save_assessment_response env0 2 1 answers7 22 w0))\<lparr>out := []\<rparr>"

definition view_inputs :: inputs where
  "view_inputs = no_inputs\<lparr>view_response_button := (\<lambda>response_id. response_id = 1)\<rparr>"

text \<open>The login form filled in with the credentials of user 2 and submitted.\<close>

definition login_inputs :: inputs where
  "login_inputs = no_inputs\<lparr>
     text_input := (\<lambda>form label. if form = ''login_form'' \<and> label = ''Email''
                       then Some ''crew@example.org''
                     else if form = ''login_form'' \<and> label = ''Password'' then Some ''pw2''
                     else None),
     form_submit_button := (\<lambda>form. form = [Lit ''login_form''])\<rparr>"

section \<open>Facts about saving\<close>

lemmas save_defs = save_assessment_response_def save_try_def score_responses_def select_code_def
     select_question_order_def select_severity_id_def fetchone_0_def fetchone_def
     connect_def commit_def close_def rollback_def reverse_scored_questions_def sum_values_def st_def Let_def detail_row_def

lemmas ex_defs = env0_def env_fk_def db0_def w0_def session2_def answers7_def


lemma fetchone_0_Inr: "fetchone_0 rows = Inr r \<longleftrightarrow> fetchone rows = Some r"
  by (simp add: fetchone_0_def split: option.splits)

lemma fetchone_0_Inl: "fetchone_0 rows = Inl e \<longleftrightarrow> fetchone rows = None \<and> e = TypeError"
  by (auto simp add: fetchone_0_def split: option.splits)

lemma fetchone_None: "fetchone rows = None \<longleftrightarrow> rows = []"
  by (simp add: fetchone_def split: list.splits)

lemma fetchone_Some: "fetchone rows = Some r \<longleftrightarrow> (\<exists>rest. rows = r # rest)"
  by (simp add: fetchone_def split: list.splits)

lemma adjust_responses_eq:
  "adjust_responses d acc rs = Inr res \<Longrightarrow>
     res = acc @ map (\<lambda>(q, opt, v). (q, opt,
             if fetchone (select_question_order d q) \<in> {Some 4, Some 7} then 6 - v else v)) rs"
  by (induction d acc rs arbitrary: res rule: adjust_responses.induct)
     (auto simp: fetchone_0_def reverse_scored_questions_def split: option.splits sum.splits if_splits)

lemma insert_details_committed:
  "insert_details E rid rs c = (r, c') \<Longrightarrow> committed c' = committed c"
  by (induction E rid rs c arbitrary: r c' rule: insert_details.induct)
     (auto simp: Let_def split: if_splits)

lemma insert_details_working:
  "insert_details E rid rs c = (None, c') \<Longrightarrow>
     working c' = (working c)\<lparr>response_details := response_details (working c) @
        map (detail_row rid) rs\<rparr>"
  by (induction E rid rs c arbitrary: c' rule: insert_details.induct)
     (auto simp: Let_def split: if_splits)

lemma save_try_failure:
  "save_try E u tid rs t c = (Some e, c') \<Longrightarrow> committed c' = committed c"
  by (auto simp: save_try_def Let_def commit_def split: sum.splits prod.splits if_splits option.splits
           dest: insert_details_committed)

lemma save_try_success:
  assumes "save_try E u tid rs t (connect d) = (None, c')"
  shows "\<exists>code rs' t' sev.
           fetchone (select_code d tid) = Some code \<and>
           score_responses d code rs t = Inr (rs', t') \<and>
           fetchone (select_severity_id d tid t') = Some sev \<and>
           committed c' = d\<lparr>assessment_responses := assessment_responses d @
                [\<lparr>ar_response_id = returning_response_id E d, ar_user_id = u,
                  ar_assessment_type_id = tid, ar_total_score = t',
                  ar_severity_id = sev, ar_created_at = current_timestamp E\<rparr>],
              response_details := response_details d @
                map (detail_row (returning_response_id E d)) rs'\<rparr>"
  using assms
  by (auto simp: save_try_def Let_def commit_def connect_def fetchone_0_Inr
           split: sum.splits prod.splits if_splits option.splits
           dest!: insert_details_working)

lemma save_success:
  assumes "save_assessment_response E u tid rs t w = (True, w')"
  shows "\<exists>code rs' t' sev.
           fetchone (select_code (store w) tid) = Some code \<and>
           score_responses (store w) code rs t = Inr (rs', t') \<and>
           fetchone (select_severity_id (store w) tid t') = Some sev \<and>
           w' = w\<lparr>store := (store w)\<lparr>assessment_responses := assessment_responses (store w) @
                [\<lparr>ar_response_id = returning_response_id E (store w), ar_user_id = u,
                  ar_assessment_type_id = tid, ar_total_score = t',
                  ar_severity_id = sev, ar_created_at = current_timestamp E\<rparr>],
              response_details := response_details (store w) @
                map (detail_row (returning_response_id E (store w))) rs'\<rparr>\<rparr>"
proof -
  from assms obtain c' where c': "save_try E u tid rs t (connect (store w)) = (None, c')"
    and w': "w' = w\<lparr>store := close c'\<rparr>"
    by (auto simp: save_assessment_response_def split: prod.splits option.splits)
  from save_try_success[OF c'] w' show ?thesis
    by (auto simp: close_def)
qed

lemma save_failure:
  assumes "save_assessment_response E u tid rs t w = (False, w')"
  shows "\<exists>e. w' = st (Error [Lit ''Error saving assessment: '', StrExn e]) w"
proof -
  from assms obtain e c' where c': "save_try E u tid rs t (connect (store w)) = (Some e, c')"
    and w': "w' = (st (Error [Lit ''Error saving assessment: '', StrExn e]) w)\<lparr>store := close (rollback c')\<rparr>"
    by (auto simp: save_assessment_response_def split: prod.splits option.splits)
  from save_try_failure[OF c'] have "close (rollback c') = store w"
    by (simp add: close_def rollback_def connect_def)
  with w' show ?thesis by (auto simp: st_def)
qed

lemma score_relationship:
  "score_responses d ''RELATIONSHIP'' rs t = Inr (rs', t') \<Longrightarrow>
     rs' = map (\<lambda>(q, opt, v). (q, opt,
             if fetchone (select_question_order d q) \<in> {Some 4, Some 7} then 6 - v else v)) rs
     \<and> t' = sum_values rs'"
  by (auto simp: score_responses_def split: sum.splits dest: adjust_responses_eq)

lemma score_other:
  "code \<noteq> ''RELATIONSHIP'' \<Longrightarrow> score_responses d code rs t = Inr (rs, t)"
  by (simp add: score_responses_def)

section \<open>Reverse scoring (C1)\<close>

text \<open>
  C1. When the code of the assessment type is \<^verbatim>\<open>RELATIONSHIP\<close> and the save succeeds, the
  detail row written for an answer with raw value \<open>v\<close> holds \<open>6 - v\<close> when the
  question's \<^verbatim>\<open>question_order\<close> is 4 or 7 and \<open>v\<close> otherwise, and the total of the header
  row is the sum of these values. The seven answers \<open>[5, 4, 3, 2, 1, 3, 4]\<close> at the
  positions 1 to 7 are stored as \<open>[5, 4, 3, 4, 1, 3, 2]\<close> with the total 22.
\<close>

theorem relationship_reverse_scoring:
  assumes "fetchone (select_code (store w) assessment_type_id) = Some ''RELATIONSHIP''"
    and "save_assessment_response E user_id assessment_type_id responses total_score w = (True, w')"
  shows "response_details (store w') = response_details (store w) @
           map (\<lambda>(question_id, option_id, v).
                  \<lparr>rd_response_id = returning_response_id E (store w),
                   rd_question_id = question_id, rd_selected_option_id = option_id,
                   rd_response_value =
                     (if fetchone (select_question_order (store w) question_id) \<in> {Some 4, Some 7}
                      then 6 - v else v)\<rparr>) responses
       \<and> (\<exists>row. assessment_responses (store w') = assessment_responses (store w) @ [row]
             \<and> ar_total_score row =
                 (\<Sum>(question_id, option_id, v) \<leftarrow> responses.
                    if fetchone (select_question_order (store w) question_id) \<in> {Some 4, Some 7}
                    then 6 - v else v))
       \<and> map (\<lambda>(question_id, option_id, v). fetchone (select_question_order db0 question_id)) answers7
             = [Some 1, Some 2, Some 3, Some 4, Some 5, Some 6, Some 7]
       \<and> map (\<lambda>(question_id, option_id, v). v) answers7 = [5, 4, 3, 2, 1, 3, 4]
       \<and> map rd_response_value (response_details (store (snd
             (save_assessment_response env0 2 1 answers7 22 w0)))) = [5, 4, 3, 4, 1, 3, 2]
       \<and> map ar_total_score (assessment_responses (store (snd
             (save_assessment_response env0 2 1 answers7 22 w0)))) = [22]"
proof -
  from save_success[OF assms(2)] assms(1) obtain rs' t' sev where
    sc: "score_responses (store w) ''RELATIONSHIP'' responses total_score = Inr (rs', t')"
    and w': "w' = w\<lparr>store := (store w)\<lparr>assessment_responses := assessment_responses (store w) @
                [\<lparr>ar_response_id = returning_response_id E (store w), ar_user_id = user_id,
                  ar_assessment_type_id = assessment_type_id, ar_total_score = t',
                  ar_severity_id = sev, ar_created_at = current_timestamp E\<rparr>],
              response_details := response_details (store w) @
                map (detail_row (returning_response_id E (store w))) rs'\<rparr>\<rparr>"
    by auto
  note adj = score_relationship[OF sc]
  have 1: "response_details (store w') = response_details (store w) @
           map (\<lambda>(question_id, option_id, v).
                  \<lparr>rd_response_id = returning_response_id E (store w),
                   rd_question_id = question_id, rd_selected_option_id = option_id,
                   rd_response_value =
                     (if fetchone (select_question_order (store w) question_id) \<in> {Some 4, Some 7}
                      then 6 - v else v)\<rparr>) responses"
    using adj w' by (simp add: detail_row_def split_def comp_def)
  have 2: "\<exists>row. assessment_responses (store w') = assessment_responses (store w) @ [row]
             \<and> ar_total_score row =
                 (\<Sum>(question_id, option_id, v) \<leftarrow> responses.
                    if fetchone (select_question_order (store w) question_id) \<in> {Some 4, Some 7}
                    then 6 - v else v)"
    using adj w' by (simp add: sum_values_def split_def comp_def)
  have 3: "map (\<lambda>(question_id, option_id, v). fetchone (select_question_order db0 question_id)) answers7
             = [Some 1, Some 2, Some 3, Some 4, Some 5, Some 6, Some 7]"
    by (simp add: answers7_def db0_def select_question_order_def fetchone_def)
  have 4: "map (\<lambda>(question_id, option_id, v). v) answers7 = [5, 4, 3, 2, 1, 3, 4]"
    by (simp add: answers7_def)
  have 5: "map rd_response_value (response_details (store (snd
             (save_assessment_response env0 2 1 answers7 22 w0)))) = [5, 4, 3, 4, 1, 3, 2]"
    by (simp add: save_defs ex_defs)
  have 6: "map ar_total_score (assessment_responses (store (snd
             (save_assessment_response env0 2 1 answers7 22 w0)))) = [22]"
    by (simp add: save_defs ex_defs)
  from 1 2 3 4 5 6 show ?thesis by blast
qed

text \<open>The theorem at two answers, the first at position 4.\<close>

theorem relationship_reverse_scoring_witness:
  "fetchone (select_code (store w0) 1) = Some ''RELATIONSHIP''
   \<and> fst (save_assessment_response env_fk 2 1 [(104, 2, 2), (101, 5, 5)] 0 w0) = True
   \<and> map rd_response_value (response_details (store (snd
        (save_assessment_response env_fk 2 1 [(104, 2, 2), (101, 5, 5)] 0 w0)))) = [4, 5]"
proof -
  have h1: "fetchone (select_code (store w0) 1) = Some ''RELATIONSHIP''"
    by (simp add: save_defs ex_defs)
  have h2: "save_assessment_response env_fk 2 1 [(104, 2, 2), (101, 5, 5)] 0 w0
              = (True, snd (save_assessment_response env_fk 2 1 [(104, 2, 2), (101, 5, 5)] 0 w0))"
    by (simp add: save_defs ex_defs)
  have h3: "response_details (store w0) = []"
    by (simp add: ex_defs)
  have h4: "fetchone (select_question_order (store w0) 104) = Some 4"
           "fetchone (select_question_order (store w0) 101) = Some 1"
    by (simp_all add: ex_defs select_question_order_def fetchone_def)
  have "fst (save_assessment_response env_fk 2 1 [(104, 2, 2), (101, 5, 5)] 0 w0) = True"
    using h2 by (metis fst_conv)
  moreover have "map rd_response_value (response_details (store (snd
        (save_assessment_response env_fk 2 1 [(104, 2, 2), (101, 5, 5)] 0 w0)))) = [4, 5]"
    using relationship_reverse_scoring[OF h1 h2, THEN conjunct1] by (simp add: h3 h4)
  ultimately show ?thesis using h1 by simp
qed

section \<open>Severity bands (C3)\<close>

text \<open>
  C3. As stated the claim fails: in the example store the bands 3 and 4 of the second
  type both contain the total 3, and the save succeeds with the first of them.
\<close>

theorem overlapping_bands_counterexample:
  "select_severity_id (store w0) 2 3 = [3, 4]
   \<and> fst (save_assessment_response env0 2 2 [(201, 12, 3), (202, 11, 0)] 3 w0) = True
   \<and> map ar_severity_id (assessment_responses (store (snd
         (save_assessment_response env0 2 2 [(201, 12, 3), (202, 11, 0)] 3 w0)))) = [3]"
  by (simp add: save_defs ex_defs)

text \<open>
  C3, amended. A successful save stores the severity of the first band, in the order
  the store returns them, that belongs to the assessment type and contains the stored
  total; so at least one band contains it. When no band contains the total that was
  computed, the save fails: it returns \<^verbatim>\<open>False\<close>, reports the \<^verbatim>\<open>TypeError\<close> of the
  subscript on the page and leaves the store as it was. Several matching bands are
  not an error.
\<close>

theorem severity_lookup:
  "(save_assessment_response E user_id assessment_type_id responses total_score w = (True, w') \<longrightarrow>
      (\<exists>row rest. assessment_responses (store w') = assessment_responses (store w) @ [row]
         \<and> select_severity_id (store w) assessment_type_id (ar_total_score row)
             = ar_severity_id row # rest
         \<and> (\<exists>l \<in> set (severity_levels (store w)).
               sl_severity_id l = ar_severity_id row
               \<and> sl_assessment_type_id l = assessment_type_id
               \<and> sl_min_score l \<le> ar_total_score row \<and> ar_total_score row \<le> sl_max_score l)))
   \<and> (fetchone (select_code (store w) assessment_type_id) = Some code
      \<and> score_responses (store w) code responses total_score = Inr (responses', total_score')
      \<and> select_severity_id (store w) assessment_type_id total_score' = [] \<longrightarrow>
        save_assessment_response E user_id assessment_type_id responses total_score w
          = (False, st (Error [Lit ''Error saving assessment: '', StrExn TypeError]) w))"
proof (intro conjI impI)
  assume a: "save_assessment_response E user_id assessment_type_id responses total_score w = (True, w')"
  from save_success[OF a] obtain code rs' t' sev where
    sev: "fetchone (select_severity_id (store w) assessment_type_id t') = Some sev"
    and w': "w' = w\<lparr>store := (store w)\<lparr>assessment_responses := assessment_responses (store w) @
                [\<lparr>ar_response_id = returning_response_id E (store w), ar_user_id = user_id,
                  ar_assessment_type_id = assessment_type_id, ar_total_score = t',
                  ar_severity_id = sev, ar_created_at = current_timestamp E\<rparr>],
              response_details := response_details (store w) @
                map (detail_row (returning_response_id E (store w))) rs'\<rparr>\<rparr>"
    by blast
  from sev obtain rest where rest: "select_severity_id (store w) assessment_type_id t' = sev # rest"
    by (auto simp: fetchone_Some)
  then have "sev \<in> set (select_severity_id (store w) assessment_type_id t')" by simp
  then have band: "\<exists>l \<in> set (severity_levels (store w)).
               sl_severity_id l = sev \<and> sl_assessment_type_id l = assessment_type_id
               \<and> sl_min_score l \<le> t' \<and> t' \<le> sl_max_score l"
    by (auto simp: select_severity_id_def)
  show "\<exists>row rest. assessment_responses (store w') = assessment_responses (store w) @ [row]
         \<and> select_severity_id (store w) assessment_type_id (ar_total_score row)
             = ar_severity_id row # rest
         \<and> (\<exists>l \<in> set (severity_levels (store w)).
               sl_severity_id l = ar_severity_id row
               \<and> sl_assessment_type_id l = assessment_type_id
               \<and> sl_min_score l \<le> ar_total_score row \<and> ar_total_score row \<le> sl_max_score l)"
    using w' rest band by simp
next
  assume a: "fetchone (select_code (store w) assessment_type_id) = Some code
      \<and> score_responses (store w) code responses total_score = Inr (responses', total_score')
      \<and> select_severity_id (store w) assessment_type_id total_score' = []"
  then show "save_assessment_response E user_id assessment_type_id responses total_score w
          = (False, st (Error [Lit ''Error saving assessment: '', StrExn TypeError]) w)"
    by (simp add: save_assessment_response_def save_try_def fetchone_0_def fetchone_def
          connect_def close_def rollback_def st_def)
qed

text \<open>The theorem at a total inside two bands and at a total outside every band.\<close>

theorem severity_lookup_witness:
  "save_assessment_response env0 2 2 [(201, 12, 3), (202, 11, 0)] 3 w0
     = (True, snd (save_assessment_response env0 2 2 [(201, 12, 3), (202, 11, 0)] 3 w0))
   \<and> map ar_severity_id (assessment_responses (store (snd
        (save_assessment_response env0 2 2 [(201, 12, 3), (202, 11, 0)] 3 w0)))) = [3]
   \<and> fetchone (select_code (store w0) 2) = Some ''STRESS''
   \<and> score_responses (store w0) ''STRESS'' [(201, 12, 3), (202, 12, 3)] 6 = Inr ([(201, 12, 3), (202, 12, 3)], 6)
   \<and> select_severity_id (store w0) 2 6 = []
   \<and> save_assessment_response env0 2 2 [(201, 12, 3), (202, 12, 3)] 6 w0
       = (False, st (Error [Lit ''Error saving assessment: '', StrExn TypeError]) w0)"
proof -
  have h1: "save_assessment_response env0 2 2 [(201, 12, 3), (202, 11, 0)] 3 w0
     = (True, snd (save_assessment_response env0 2 2 [(201, 12, 3), (202, 11, 0)] 3 w0))"
    by (simp add: save_defs ex_defs)
  have h2: "fetchone (select_code (store w0) 2) = Some ''STRESS''
   \<and> score_responses (store w0) ''STRESS'' [(201, 12, 3), (202, 12, 3)] 6 = Inr ([(201, 12, 3), (202, 12, 3)], 6)
   \<and> select_severity_id (store w0) 2 6 = []"
    by (simp add: save_defs ex_defs)
  have h3: "assessment_responses (store w0) = []"
    by (simp add: ex_defs)
  have sel: "select_severity_id (store w0) 2 3 = [3, 4]"
    by (simp add: select_severity_id_def ex_defs)
  from severity_lookup[of env0 2 2 "[(201, 12, 3), (202, 11, 0)]" 3 w0
         "snd (save_assessment_response env0 2 2 [(201, 12, 3), (202, 11, 0)] 3 w0)", THEN conjunct1, rule_format, OF h1]
  obtain row rest where row: "assessment_responses (store (snd
        (save_assessment_response env0 2 2 [(201, 12, 3), (202, 11, 0)] 3 w0))) = [row]"
       "select_severity_id (store w0) 2 (ar_total_score row) = ar_severity_id row # rest"
    using h3 by auto
  have "ar_total_score row = 3"
    using row(1) by (auto simp add: save_defs ex_defs)
  with row(2) sel have "ar_severity_id row = 3" by simp
  with row(1) have c1: "map ar_severity_id (assessment_responses (store (snd
        (save_assessment_response env0 2 2 [(201, 12, 3), (202, 11, 0)] 3 w0)))) = [3]" by simp
  from severity_lookup[of env0 2 2 "[(201, 12, 3), (202, 12, 3)]" 6 w0 _ "''STRESS''" _ 6,
         THEN conjunct2, rule_format, OF h2]
  have c2: "save_assessment_response env0 2 2 [(201, 12, 3), (202, 12, 3)] 6 w0
       = (False, st (Error [Lit ''Error saving assessment: '', StrExn TypeError]) w0)" .
  from h1 h2 c1 c2 show ?thesis by blast
qed

section \<open>Atomic save (C4)\<close>

text \<open>
  C4. Every save ends in one of two ways. It returns \<^verbatim>\<open>True\<close>, and the store has
  gained exactly one header row and, after it, one detail row per submitted answer,
  each carrying the key of that header row, and nothing else has changed. Or it
  returns \<^verbatim>\<open>False\<close>, the store is exactly what it was before the call, whichever
  statement failed, and the error is written to the page.
\<close>

theorem save_atomic:
  "\<exists>w'. (save_assessment_response E user_id assessment_type_id responses total_score w = (True, w')
          \<and> (\<exists>row stored.
                store w' = (store w)\<lparr>
                  assessment_responses := assessment_responses (store w) @ [row],
                  response_details := response_details (store w) @ stored\<rparr>
                \<and> map (\<lambda>r. (rd_response_id r, rd_question_id r, rd_selected_option_id r)) stored
                    = map (\<lambda>(question_id, option_id, v).
                             (ar_response_id row, question_id, option_id)) responses)
          \<and> out w' = out w \<and> sess w' = sess w)
      \<or> (save_assessment_response E user_id assessment_type_id responses total_score w = (False, w')
          \<and> store w' = store w \<and> sess w' = sess w
          \<and> (\<exists>e. out w' = out w @ [Error [Lit ''Error saving assessment: '', StrExn e]]))"
proof (cases "save_assessment_response E user_id assessment_type_id responses total_score w")
  case (Pair ok w')
  show ?thesis
  proof (cases ok)
    case True
    with Pair have a: "save_assessment_response E user_id assessment_type_id responses total_score w = (True, w')"
      by simp
    from save_success[OF a] obtain code rs' t' sev where
      sc: "score_responses (store w) code responses total_score = Inr (rs', t')"
      and w': "w' = w\<lparr>store := (store w)\<lparr>assessment_responses := assessment_responses (store w) @
                [\<lparr>ar_response_id = returning_response_id E (store w), ar_user_id = user_id,
                  ar_assessment_type_id = assessment_type_id, ar_total_score = t',
                  ar_severity_id = sev, ar_created_at = current_timestamp E\<rparr>],
              response_details := response_details (store w) @
                map (detail_row (returning_response_id E (store w))) rs'\<rparr>\<rparr>"
      by blast
    have ids: "map (\<lambda>(q, opt, v). (q, opt)) rs' = map (\<lambda>(q, opt, v). (q, opt)) responses"
    proof (cases "code = ''RELATIONSHIP''")
      case True
      with sc score_relationship[of "store w" responses total_score rs' t'] show ?thesis
        by (simp add: split_def comp_def)
    next
      case False
      with sc show ?thesis by (simp add: score_other)
    qed
    have "map (\<lambda>r. (rd_response_id r, rd_question_id r, rd_selected_option_id r))
             (map (detail_row (returning_response_id E (store w))) rs')
          = map (\<lambda>(q, opt). (returning_response_id E (store w), q, opt))
             (map (\<lambda>(q, opt, v). (q, opt)) rs')"
      by (simp add: detail_row_def split_def comp_def)
    also have "\<dots> = map (\<lambda>(q, opt, v). (returning_response_id E (store w), q, opt)) responses"
      unfolding ids by (simp add: split_def comp_def)
    finally have m: "map (\<lambda>r. (rd_response_id r, rd_question_id r, rd_selected_option_id r))
             (map (detail_row (returning_response_id E (store w))) rs')
          = map (\<lambda>(q, opt, v). (returning_response_id E (store w), q, opt)) responses" .
    have "\<exists>row stored.
            store w' = (store w)\<lparr>
              assessment_responses := assessment_responses (store w) @ [row],
              response_details := response_details (store w) @ stored\<rparr>
            \<and> map (\<lambda>r. (rd_response_id r, rd_question_id r, rd_selected_option_id r)) stored
                = map (\<lambda>(question_id, option_id, v).
                         (ar_response_id row, question_id, option_id)) responses"
      by (rule exI[of _ "\<lparr>ar_response_id = returning_response_id E (store w), ar_user_id = user_id,
                  ar_assessment_type_id = assessment_type_id, ar_total_score = t',
                  ar_severity_id = sev, ar_created_at = current_timestamp E\<rparr>"],
          rule exI[of _ "map (detail_row (returning_response_id E (store w))) rs'"])
         (use w' m in simp)
    moreover have "out w' = out w \<and> sess w' = sess w"
      using w' by simp
    ultimately show ?thesis
      using a by blast
  next
    case False
    with Pair have a: "save_assessment_response E user_id assessment_type_id responses total_score w = (False, w')"
      by simp
    from save_failure[OF a] obtain e where "w' = st (Error [Lit ''Error saving assessment: '', StrExn e]) w"
      by blast
    with a show ?thesis
      by (auto simp: st_def)
  qed
qed

text \<open>
  The theorem where the second detail row violates a foreign key: the header row and
  the first detail row written before it are gone.
\<close>

theorem save_atomic_witness:
  "fst (save_assessment_response env_fk 2 2 [(201, 12, 3), (999, 11, 0)] 3 w0) = False
   \<and> store (snd (save_assessment_response env_fk 2 2 [(201, 12, 3), (999, 11, 0)] 3 w0)) = db0
   \<and> out (snd (save_assessment_response env_fk 2 2 [(201, 12, 3), (999, 11, 0)] 3 w0))
       = [Error [Lit ''Error saving assessment: '', StrExn IntegrityError]]"
proof -
  have f: "fst (save_assessment_response env_fk 2 2 [(201, 12, 3), (999, 11, 0)] 3 w0) = False"
    by (simp add: save_defs ex_defs)
  have o: "out (snd (save_assessment_response env_fk 2 2 [(201, 12, 3), (999, 11, 0)] 3 w0))
       = [Error [Lit ''Error saving assessment: '', StrExn IntegrityError]]"
    by (simp add: save_defs ex_defs)
  from save_atomic[of env_fk 2 2 "[(201, 12, 3), (999, 11, 0)]" 3 w0] f
  have "store (snd (save_assessment_response env_fk 2 2 [(201, 12, 3), (999, 11, 0)] 3 w0)) = store w0"
    by auto
  then show ?thesis using f o by (simp add: w0_def)
qed

section \<open>The total passed by the caller (C10)\<close>

text \<open>
  C10. For the code \<^verbatim>\<open>RELATIONSHIP\<close> the \<^verbatim>\<open>total_score\<close> argument is ignored: two calls
  that differ only in it do the same, and the stored total is the sum of the stored
  detail values. For any other code the argument is stored as it is and the details
  are stored as passed, so the two can disagree: the example stores the total 0 over
  the detail values 3 and 3.
\<close>

theorem caller_total:
  "(fetchone (select_code (store w) assessment_type_id) = Some ''RELATIONSHIP'' \<longrightarrow>
      save_assessment_response E user_id assessment_type_id responses total_score w
        = save_assessment_response E user_id assessment_type_id responses total_score2 w
      \<and> (save_assessment_response E user_id assessment_type_id responses total_score w = (True, w') \<longrightarrow>
           (\<exists>row stored. assessment_responses (store w') = assessment_responses (store w) @ [row]
              \<and> response_details (store w') = response_details (store w) @ stored
              \<and> ar_total_score row = sum_list (map rd_response_value stored))))
   \<and> (fetchone (select_code (store w) assessment_type_id) = Some code \<and> code \<noteq> ''RELATIONSHIP''
       \<and> save_assessment_response E user_id assessment_type_id responses total_score w = (True, w') \<longrightarrow>
           (\<exists>row. assessment_responses (store w') = assessment_responses (store w) @ [row]
              \<and> ar_total_score row = total_score)
           \<and> response_details (store w') = response_details (store w) @
                map (detail_row (returning_response_id E (store w))) responses)
   \<and> fst (save_assessment_response env0 2 2 [(201, 12, 3), (202, 12, 3)] 0 w0) = True
   \<and> map ar_total_score (assessment_responses (store (snd
        (save_assessment_response env0 2 2 [(201, 12, 3), (202, 12, 3)] 0 w0)))) = [0]
   \<and> map rd_response_value (response_details (store (snd
        (save_assessment_response env0 2 2 [(201, 12, 3), (202, 12, 3)] 0 w0)))) = [3, 3]"
proof (intro conjI impI)
  assume rel: "fetchone (select_code (store w) assessment_type_id) = Some ''RELATIONSHIP''"
  then have "save_try E user_id assessment_type_id responses total_score (connect (store w))
      = save_try E user_id assessment_type_id responses total_score2 (connect (store w))"
    by (simp add: save_try_def score_responses_def fetchone_0_def connect_def)
  then show "save_assessment_response E user_id assessment_type_id responses total_score w
        = save_assessment_response E user_id assessment_type_id responses total_score2 w"
    by (simp add: save_assessment_response_def)
next
  assume rel: "fetchone (select_code (store w) assessment_type_id) = Some ''RELATIONSHIP''"
    and a: "save_assessment_response E user_id assessment_type_id responses total_score w = (True, w')"
  from save_success[OF a] rel obtain rs' t' sev where
    sc: "score_responses (store w) ''RELATIONSHIP'' responses total_score = Inr (rs', t')"
    and w': "w' = w\<lparr>store := (store w)\<lparr>assessment_responses := assessment_responses (store w) @
                [\<lparr>ar_response_id = returning_response_id E (store w), ar_user_id = user_id,
                  ar_assessment_type_id = assessment_type_id, ar_total_score = t',
                  ar_severity_id = sev, ar_created_at = current_timestamp E\<rparr>],
              response_details := response_details (store w) @
                map (detail_row (returning_response_id E (store w))) rs'\<rparr>\<rparr>"
    by auto
  from score_relationship[OF sc] have t': "t' = sum_values rs'" by simp
  have "sum_list (map rd_response_value (map (detail_row (returning_response_id E (store w))) rs'))
          = sum_values rs'"
    by (simp add: sum_values_def detail_row_def split_def comp_def)
  with w' t' show "\<exists>row stored. assessment_responses (store w') = assessment_responses (store w) @ [row]
              \<and> response_details (store w') = response_details (store w) @ stored
              \<and> ar_total_score row = sum_list (map rd_response_value stored)"
    by simp
next
  assume h: "fetchone (select_code (store w) assessment_type_id) = Some code \<and> code \<noteq> ''RELATIONSHIP''
       \<and> save_assessment_response E user_id assessment_type_id responses total_score w = (True, w')"
  then have a: "save_assessment_response E user_id assessment_type_id responses total_score w = (True, w')"
    by simp
  from save_success[OF a] h obtain rs' t' sev where
    sc: "score_responses (store w) code responses total_score = Inr (rs', t')"
    and w': "w' = w\<lparr>store := (store w)\<lparr>assessment_responses := assessment_responses (store w) @
                [\<lparr>ar_response_id = returning_response_id E (store w), ar_user_id = user_id,
                  ar_assessment_type_id = assessment_type_id, ar_total_score = t',
                  ar_severity_id = sev, ar_created_at = current_timestamp E\<rparr>],
              response_details := response_details (store w) @
                map (detail_row (returning_response_id E (store w))) rs'\<rparr>\<rparr>"
    by auto
  from sc h have eq: "rs' = responses" "t' = total_score" by (simp_all add: score_other)
  show "\<exists>row. assessment_responses (store w') = assessment_responses (store w) @ [row]
              \<and> ar_total_score row = total_score"
    using w' eq by simp
  show "response_details (store w') = response_details (store w) @
                map (detail_row (returning_response_id E (store w))) responses"
    using w' eq by simp
next
  show "fst (save_assessment_response env0 2 2 [(201, 12, 3), (202, 12, 3)] 0 w0) = True"
    by (simp add: save_defs ex_defs)
  show "map ar_total_score (assessment_responses (store (snd
        (save_assessment_response env0 2 2 [(201, 12, 3), (202, 12, 3)] 0 w0)))) = [0]"
    by (simp add: save_defs ex_defs)
  show "map rd_response_value (response_details (store (snd
        (save_assessment_response env0 2 2 [(201, 12, 3), (202, 12, 3)] 0 w0)))) = [3, 3]"
    by (simp add: save_defs ex_defs)
qed

text \<open>The theorem at a \<^verbatim>\<open>RELATIONSHIP\<close> save and at a \<^verbatim>\<open>STRESS\<close> save.\<close>

theorem caller_total_witness:
  "fetchone (select_code (store w0) 1) = Some ''RELATIONSHIP''
   \<and> save_assessment_response env0 2 1 answers7 22 w0
       = save_assessment_response env0 2 1 answers7 0 w0
   \<and> fetchone (select_code (store w0) 2) = Some ''STRESS''
   \<and> ''STRESS'' \<noteq> ''RELATIONSHIP''
   \<and> fst (save_assessment_response env0 2 2 [(201, 12, 3), (202, 12, 3)] 0 w0) = True
   \<and> response_details (store (snd
        (save_assessment_response env0 2 2 [(201, 12, 3), (202, 12, 3)] 0 w0)))
       = map (detail_row 1) [(201, 12, 3), (202, 12, 3)]"
proof -
  have h1: "fetchone (select_code (store w0) 1) = Some ''RELATIONSHIP''"
    by (simp add: select_code_def fetchone_def ex_defs)
  have h2: "fetchone (select_code (store w0) 2) = Some ''STRESS'' \<and> ''STRESS'' \<noteq> ''RELATIONSHIP''
     \<and> save_assessment_response env0 2 2 [(201, 12, 3), (202, 12, 3)] 0 w0
        = (True, snd (save_assessment_response env0 2 2 [(201, 12, 3), (202, 12, 3)] 0 w0))"
    by (simp add: save_defs ex_defs)
  have h3: "response_details (store w0) = []" "returning_response_id env0 (store w0) = 1"
    by (simp_all add: ex_defs)
  from caller_total[of w0 1 env0 2 answers7 22 0, THEN conjunct1, rule_format, OF h1, THEN conjunct1]
  have c1: "save_assessment_response env0 2 1 answers7 22 w0
       = save_assessment_response env0 2 1 answers7 0 w0" .
  from caller_total[of w0 2 env0 2 "[(201, 12, 3), (202, 12, 3)]" 0 _
         "snd (save_assessment_response env0 2 2 [(201, 12, 3), (202, 12, 3)] 0 w0)" "''STRESS''",
         THEN conjunct2, THEN conjunct1, rule_format, OF h2, THEN conjunct2]
  have c2: "response_details (store (snd
        (save_assessment_response env0 2 2 [(201, 12, 3), (202, 12, 3)] 0 w0)))
       = map (detail_row 1) [(201, 12, 3), (202, 12, 3)]"
    by (simp add: h3)
  have "fst (save_assessment_response env0 2 2 [(201, 12, 3), (202, 12, 3)] 0 w0) = True"
    using h2 by (metis fst_conv)
  with h1 h2 c1 c2 show ?thesis by blast
qed

section \<open>Raw scores of the other assessment types (C5)\<close>

lemma options_dict_fold:
  "map_of (fold (\<lambda>opt m. AList.update (ro_option_text opt) opt m) opts m0) k = Some v \<Longrightarrow>
     (v \<in> set opts \<and> ro_option_text v = k) \<or> map_of m0 k = Some v"
  by (induction opts arbitrary: m0) (fastforce simp: update_conv' split: if_splits)+

lemma options_dict_Some:
  "map_of (options_dict opts) k = Some v \<Longrightarrow> v \<in> set opts \<and> ro_option_text v = k"
  using options_dict_fold[of opts "[]" k v] by (simp add: options_dict_def)

lemma choice_not_initial:
  "choice (c # cs) 0 picked \<noteq> c \<Longrightarrow> picked = Some (choice (c # cs) 0 picked)"
  by (auto simp: choice_def split: option.splits if_splits)

lemma ask_questions_raw:
  assumes "ask_questions inp data rs qa w = (None, rs', qa', w')"
    and "\<forall>(q, opts) \<in> set data. set opts \<subseteq> set (response_options d)"
    and "\<forall>r \<in> set rs. P r"
    and "\<And>question_id opt. opt \<in> set (response_options d) \<Longrightarrow>
              question_radio inp question_id = Some (ro_option_text opt) \<Longrightarrow>
              P (question_id, ro_option_id opt, ro_option_value opt)"
  shows "(\<forall>r \<in> set rs'. P r) \<and> store w' = store w \<and> sess w' = sess w"
  using assms
proof (induction inp data rs qa w arbitrary: rs' qa' w' rule: ask_questions.induct)
  case (1 inp responses questions_answered w)
  then show ?case by simp
next
  case (2 inp q opts rest responses questions_answered w)
  let ?options = "options_dict opts"
  let ?choices = "''Select an option'' # map fst ?options"
  let ?response = "choice ?choices 0 (question_radio inp (aq_question_id q))"
  let ?w = "st (Radio [Lit (aq_question_text q)] ?choices) w"
  let ?qa = "AList.update (aq_question_id q) (?response \<noteq> ''Select an option'') questions_answered"
  have a: "\<forall>(q, opts) \<in> set rest. set opts \<subseteq> set (response_options d)"
    using "2.prems"(2) by simp
  show ?case
  proof (cases "?response \<noteq> ''Select an option''")
    case True
    with "2.prems"(1) obtain opt where opt: "map_of ?options ?response = Some opt"
      and rec: "ask_questions inp rest
                  (responses @ [(aq_question_id q, ro_option_id opt, ro_option_value opt)]) ?qa ?w
                = (None, rs', qa', w')"
      by (auto simp: Let_def split: option.splits)
    from options_dict_Some[OF opt] have o1: "opt \<in> set opts" and o2: "ro_option_text opt = ?response"
      by simp_all
    from "2.prems"(2) o1 have o3: "opt \<in> set (response_options d)" by auto
    from choice_not_initial[OF True] o2
    have o4: "question_radio inp (aq_question_id q) = Some (ro_option_text opt)" by simp
    have new: "P (aq_question_id q, ro_option_id opt, ro_option_value opt)"
      using o3 o4 by (rule "2.prems"(4))
    have b: "\<forall>r \<in> set (responses @ [(aq_question_id q, ro_option_id opt, ro_option_value opt)]). P r"
      using "2.prems"(3) new by simp
    have "(\<forall>r \<in> set rs'. P r) \<and> store w' = store ?w \<and> sess w' = sess ?w"
      by (rule "2.IH"(1)[OF refl refl refl refl refl True opt rec a b "2.prems"(4)])
    then show ?thesis by (simp add: st_def)
  next
    case False
    with "2.prems"(1) have rec: "ask_questions inp rest responses ?qa ?w = (None, rs', qa', w')"
      by (auto simp: Let_def)
    have "(\<forall>r \<in> set rs'. P r) \<and> store w' = store ?w \<and> sess w' = sess ?w"
      by (rule "2.IH"(2)[OF refl refl refl refl refl False rec a "2.prems"(3,4)])
    then show ?thesis by (simp add: st_def)
  qed
qed

lemma get_assessment_questions_options:
  "\<forall>(q, opts) \<in> set (get_assessment_questions d tid). set opts \<subseteq> set (response_options d)"
  by (auto simp: get_assessment_questions_def)

lemma render_questionnaire_Rerun:
  assumes "render_questionnaire E inp tid w = (Rerun, w')"
  shows "\<exists>responses qa w1 w2 user_id wq.
           ask_questions inp (get_assessment_questions (store w) tid) [] [] wq
             = (None, responses, qa, w1)
           \<and> store wq = store w
           \<and> save_assessment_response E user_id tid responses (sum_values responses)
                (st (FormSubmitButton ''Submit Assessment'') w1) = (True, w2)
           \<and> store w' = store w2"
proof -
  let ?data = "get_assessment_questions (store w) tid"
  from assms have ne: "?data \<noteq> []"
    by (auto simp: render_questionnaire_def Let_def)
  with assms obtain title where
    title: "fetchone [at_title t. t \<leftarrow> assessment_types (store w), at_assessment_type_id t = tid]
              = Some title"
    by (cases "fetchone [at_title t. t \<leftarrow> assessment_types (store w), at_assessment_type_id t = tid]")
       (auto simp: render_questionnaire_def Let_def)
  let ?wq = "st (Form [Lit ''questionnaire_form_'', StrInt tid]) (st (Subheader [Lit title]) w)"
  obtain err responses qa w1 where ask: "ask_questions inp ?data [] [] ?wq = (err, responses, qa, w1)"
    by (cases "ask_questions inp ?data [] [] ?wq") auto
  let ?ws = "st (FormSubmitButton ''Submit Assessment'') w1"
  from assms ne title ask have err: "err = None"
    by (cases err) (auto simp: render_questionnaire_def Let_def)
  from assms[unfolded render_questionnaire_def Let_def] ne title ask err have eq1:
    "(if form_submit_button inp [Lit ''questionnaire_form_'', StrInt tid]
      then if \<not> list_all snd qa
           then (Done, st (Error [Lit ''Please answer all questions before submitting.'']) ?ws)
           else (case current_user (sess ?ws) of
                   None \<Rightarrow> (Raised AttributeError, ?ws)
                 | Some user_id \<Rightarrow>
                     (case save_assessment_response E user_id tid responses (sum_values responses) ?ws of
                        (True, w) \<Rightarrow>
                          (Rerun, (st (Success ''Thank you for completing the assessment!'') w)
                                    \<lparr>sess := (sess w)\<lparr>section' := Some ''Dashboard''\<rparr>\<rparr>)
                      | (False, w) \<Rightarrow> (Done, w)))
      else (Done, ?ws)) = (Rerun, w')"
    by simp
  have A: "form_submit_button inp [Lit ''questionnaire_form_'', StrInt tid]"
  proof (rule ccontr)
    assume "\<not> form_submit_button inp [Lit ''questionnaire_form_'', StrInt tid]"
    with eq1 show False by simp
  qed
  have B: "list_all snd qa"
  proof (rule ccontr)
    assume "\<not> list_all snd qa"
    with eq1 A show False by simp
  qed
  from eq1 A B have eq2:
    "(case current_user (sess ?ws) of
        None \<Rightarrow> (Raised AttributeError, ?ws)
      | Some user_id \<Rightarrow>
          (case save_assessment_response E user_id tid responses (sum_values responses) ?ws of
             (True, w) \<Rightarrow>
               (Rerun, (st (Success ''Thank you for completing the assessment!'') w)
                         \<lparr>sess := (sess w)\<lparr>section' := Some ''Dashboard''\<rparr>\<rparr>)
           | (False, w) \<Rightarrow> (Done, w))) = (Rerun, w')"
    by simp
  then obtain user_id where
    user: "current_user (sess ?ws) = Some user_id"
    and rest: "(case save_assessment_response E user_id tid responses (sum_values responses) ?ws of
                 (True, w) \<Rightarrow>
                   (Rerun, (st (Success ''Thank you for completing the assessment!'') w)
                             \<lparr>sess := (sess w)\<lparr>section' := Some ''Dashboard''\<rparr>\<rparr>)
               | (False, w) \<Rightarrow> (Done, w)) = (Rerun, w')"
    by (cases "current_user (sess ?ws)") simp_all
  obtain ok w2 where save: "save_assessment_response E user_id tid responses (sum_values responses) ?ws
      = (ok, w2)"
    by (cases "save_assessment_response E user_id tid responses (sum_values responses) ?ws") auto
  have ok: "ok = True"
  proof (cases ok)
    case False
    with rest save show ?thesis by simp
  qed simp
  from rest save ok have w': "store w' = store w2"
    by (auto simp: st_def)
  have "store ?wq = store w" by (simp add: st_def)
  with ask err save ok w' show ?thesis by blast
qed

text \<open>
  C5. When the code of the assessment type is not \<^verbatim>\<open>RELATIONSHIP\<close> and a submitted
  questionnaire is saved (the run ends in the rerun that follows a successful save),
  the store has gained one header row and the detail rows of the answers; every
  detail row holds the value of the option the user selected for its question,
  unmodified, and the total of the header row is the sum of these values.
\<close>

theorem raw_scores_kept:
  assumes "fetchone (select_code (store w) assessment_type_id) = Some code"
    and "code \<noteq> ''RELATIONSHIP''"
    and "render_questionnaire E inp assessment_type_id w = (Rerun, w')"
  shows "\<exists>row stored.
           assessment_responses (store w') = assessment_responses (store w) @ [row]
           \<and> response_details (store w') = response_details (store w) @ stored
           \<and> ar_total_score row = sum_list (map rd_response_value stored)
           \<and> (\<forall>r \<in> set stored. \<exists>opt \<in> set (response_options (store w)).
                 ro_option_id opt = rd_selected_option_id r
                 \<and> ro_option_value opt = rd_response_value r
                 \<and> question_radio inp (rd_question_id r) = Some (ro_option_text opt))"
proof -
  let ?P = "\<lambda>r. case r of (question_id, option_id, v) \<Rightarrow>
     (\<exists>opt \<in> set (response_options (store w)). ro_option_id opt = option_id \<and> ro_option_value opt = v
        \<and> question_radio inp question_id = Some (ro_option_text opt))"
  from render_questionnaire_Rerun[OF assms(3)] obtain responses qa w1 w2 user_id wq where
    ask: "ask_questions inp (get_assessment_questions (store w) assessment_type_id) [] [] wq
             = (None, responses, qa, w1)"
    and wq: "store wq = store w"
    and save: "save_assessment_response E user_id assessment_type_id responses (sum_values responses)
                (st (FormSubmitButton ''Submit Assessment'') w1) = (True, w2)"
    and w': "store w' = store w2"
    by (auto simp: st_def)
  have raw: "(\<forall>r \<in> set responses. ?P r) \<and> store w1 = store wq \<and> sess w1 = sess wq"
    by (rule ask_questions_raw[OF ask get_assessment_questions_options[unfolded wq[symmetric]]])
       (auto simp: wq)
  then have s1: "store (st (FormSubmitButton ''Submit Assessment'') w1) = store w"
    by (simp add: st_def wq)
  from save_success[OF save] assms(1) s1 obtain rs' t' sev where
    sc: "score_responses (store w) code responses (sum_values responses) = Inr (rs', t')"
    and w2: "store w2 = (store w)\<lparr>assessment_responses := assessment_responses (store w) @
                [\<lparr>ar_response_id = returning_response_id E (store w), ar_user_id = user_id,
                  ar_assessment_type_id = assessment_type_id, ar_total_score = t',
                  ar_severity_id = sev, ar_created_at = current_timestamp E\<rparr>],
              response_details := response_details (store w) @
                map (detail_row (returning_response_id E (store w))) rs'\<rparr>"
    by auto
  from sc assms(2) have eq: "rs' = responses" "t' = sum_values responses"
    by (auto simp: score_other)
  have sum: "sum_values responses
      = sum_list (map rd_response_value (map (detail_row (returning_response_id E (store w))) responses))"
    by (simp add: sum_values_def detail_row_def split_def comp_def)
  have each: "\<forall>r \<in> set (map (detail_row (returning_response_id E (store w))) responses).
       \<exists>opt \<in> set (response_options (store w)).
                 ro_option_id opt = rd_selected_option_id r
                 \<and> ro_option_value opt = rd_response_value r
                 \<and> question_radio inp (rd_question_id r) = Some (ro_option_text opt)"
    using raw by (fastforce simp: detail_row_def split: prod.splits)
  show ?thesis
    by (rule exI[of _ "\<lparr>ar_response_id = returning_response_id E (store w), ar_user_id = user_id,
                  ar_assessment_type_id = assessment_type_id, ar_total_score = t',
                  ar_severity_id = sev, ar_created_at = current_timestamp E\<rparr>"],
        rule exI[of _ "map (detail_row (returning_response_id E (store w))) responses"])
       (use w' w2 eq sum each in simp)
qed

text \<open>The theorem at the second questionnaire of the example store.\<close>

theorem raw_scores_kept_witness:
  "fetchone (select_code (store w0) 2) = Some ''STRESS''
   \<and> ''STRESS'' \<noteq> ''RELATIONSHIP''
   \<and> fst (render_questionnaire env0 stress_inputs 2 w0) = Rerun
   \<and> (\<exists>row stored.
         assessment_responses (store (snd (render_questionnaire env0 stress_inputs 2 w0))) = [row]
         \<and> response_details (store (snd (render_questionnaire env0 stress_inputs 2 w0))) = stored
         \<and> ar_total_score row = sum_list (map rd_response_value stored))"
proof -
  have h1: "fetchone (select_code (store w0) 2) = Some ''STRESS''"
    by (simp add: select_code_def fetchone_def ex_defs)
  have h2: "''STRESS'' \<noteq> ''RELATIONSHIP''"
    by simp
  have f: "fst (render_questionnaire env0 stress_inputs 2 w0) = Rerun"
    by (simp add: render_questionnaire_def get_assessment_questions_def options_dict_def
          choice_def stress_inputs_def no_inputs_def ex_defs save_defs)
  then have h3: "render_questionnaire env0 stress_inputs 2 w0
      = (Rerun, snd (render_questionnaire env0 stress_inputs 2 w0))"
    by (metis prod.collapse)
  have h4: "assessment_responses (store w0) = []" "response_details (store w0) = []"
    by (simp_all add: ex_defs)
  from raw_scores_kept[OF h1 h2 h3]
  have "\<exists>row stored.
         assessment_responses (store (snd (render_questionnaire env0 stress_inputs 2 w0))) = [row]
         \<and> response_details (store (snd (render_questionnaire env0 stress_inputs 2 w0))) = stored
         \<and> ar_total_score row = sum_list (map rd_response_value stored)"
    unfolding h4 by auto
  with h1 h2 f show ?thesis by blast
qed

section \<open>Logout (C9)\<close>

lemma logout_empty: "logout s = empty_session"
  by (cases s) (simp add: logout_def keys_def has_key_def del_key_def empty_session_def)

lemma history_table_logout [simp]:
  "history_table admin (inp\<lparr>logout_button := b\<rparr>) hist w = history_table admin inp hist w"
  by (induction hist arbitrary: w) (simp_all add: Let_def cong: if_cong)

lemma ask_questions_logout [simp]:
  "ask_questions (inp\<lparr>logout_button := b\<rparr>) data rs qa w = ask_questions inp data rs qa w"
proof (induction data arbitrary: rs qa w)
  case Nil
  show ?case by simp
next
  case (Cons x data)
  obtain q opts where x: "x = (q, opts)" by (cases x)
  show ?case unfolding x
    by (simp add: Let_def Cons cong: if_cong option.case_cong)
qed

lemma render_dashboard_logout [simp]:
  "render_dashboard (inp\<lparr>logout_button := b\<rparr>) w = render_dashboard inp w"
  by (simp add: render_dashboard_def dashboard_page_def response_details_view_def Let_def
        cong: if_cong option.case_cong sum.case_cong prod.case_cong)

lemma render_questionnaire_logout [simp]:
  "render_questionnaire E (inp\<lparr>logout_button := b\<rparr>) tid w = render_questionnaire E inp tid w"
  by (simp add: render_questionnaire_def Let_def
        cong: if_cong option.case_cong sum.case_cong prod.case_cong)

lemma render_profile_logout [simp]:
  "render_profile E (inp\<lparr>logout_button := b\<rparr>) w = render_profile E inp w"
  by (simp add: render_profile_def Let_def
        cong: if_cong option.case_cong sum.case_cong prod.case_cong)

lemma navigation_logout [simp]:
  "navigation E (inp\<lparr>logout_button := b\<rparr>) w = navigation E inp w"
  by (simp add: navigation_def Let_def
        cong: if_cong option.case_cong sum.case_cong prod.case_cong)

lemma login_user_Some:
  assumes "login_user E email password w = (ok, w')"
    and "current_user (sess w) = None" and "current_user (sess w') = Some uid"
  shows "\<exists>u \<in> set (users (store w)). u_user_id u = uid \<and> u_email u = email
           \<and> u_password_hash u = hash_password E password"
proof -
  let ?rows = "[(u_user_id u, u_is_admin u). u \<leftarrow> users (store w),
                 u_email u = email \<and> u_password_hash u = hash_password E password]"
  from assms obtain admin where "fetchone ?rows = Some (uid, admin)"
    by (auto simp: login_user_def split: option.splits)
  then have "(uid, admin) \<in> set ?rows"
    unfolding fetchone_Some by (metis list.set_intros(1))
  then show ?thesis by auto
qed

text \<open>
  C9. The loop of the logout button deletes every key, whatever the session state:
  the current user, the role flag, the admin-view flag, the section and the selected
  response are all absent afterwards. In a run of \<^verbatim>\<open>main\<close> of a logged-in session that
  would reach the end of the script without the click, the click ends the run with a
  rerun on the empty session. On the empty session \<^verbatim>\<open>main\<close> shows the login or the
  sign-up form only, and the session has a current user afterwards only when the
  login found a user with the given email and password hash or a registration
  succeeded.
\<close>

theorem logout_clears_session:
  "logout s = empty_session
   \<and> (current_user (sess w) \<noteq> None \<and> fst (main E (inp\<lparr>logout_button := False\<rparr>) w) = Done \<longrightarrow>
        fst (main E (inp\<lparr>logout_button := True\<rparr>) w) = Rerun
        \<and> sess (snd (main E (inp\<lparr>logout_button := True\<rparr>) w)) = empty_session)
   \<and> main E inp2 (w2\<lparr>sess := empty_session\<rparr>)
       = (if choice [''Login'', ''Sign Up''] 0 (auth_option inp2) = ''Login''
          then render_login E inp2
                 (st (Radio [Lit ''Choose an option:''] [''Login'', ''Sign Up''])
                    (st (Title ''Mental Health Assessment Platform'') (w2\<lparr>sess := empty_session\<rparr>)))
          else render_signup E inp2
                 (st (Radio [Lit ''Choose an option:''] [''Login'', ''Sign Up''])
                    (st (Title ''Mental Health Assessment Platform'') (w2\<lparr>sess := empty_session\<rparr>))))
   \<and> (current_user (sess (snd (main E inp2 (w2\<lparr>sess := empty_session\<rparr>)))) = Some uid \<longrightarrow>
        (\<exists>u \<in> set (users (store w2)). u_user_id u = uid
            \<and> u_email u = typed '''' (text_input inp2 ''login_form'' ''Email'')
            \<and> u_password_hash u
                = hash_password E (typed '''' (text_input inp2 ''login_form'' ''Password'')))
        \<or> (choice [''Login'', ''Sign Up''] 0 (auth_option inp2) \<noteq> ''Login''
            \<and> fst (main E inp2 (w2\<lparr>sess := empty_session\<rparr>)) = Rerun
            \<and> uid = returning_user_id E (store w2)))"
proof (intro conjI impI)
  show "logout s = empty_session" by (rule logout_empty)
next
  assume a: "current_user (sess w) \<noteq> None \<and> fst (main E (inp\<lparr>logout_button := False\<rparr>) w) = Done"
  let ?wt = "st (Title ''Mental Health Assessment Platform'') w"
  from a obtain y where cu: "current_user (sess ?wt) = Some y" by (auto simp: st_def)
  obtain status wn where nav: "navigation E inp ?wt = (status, wn)"
    by (cases "navigation E inp ?wt") auto
  have "status = Done"
    using a cu nav by (cases status) (simp_all add: main_def Let_def)
  with cu nav show "fst (main E (inp\<lparr>logout_button := True\<rparr>) w) = Rerun"
    by (simp add: main_def Let_def)
  from \<open>status = Done\<close> cu nav
  show "sess (snd (main E (inp\<lparr>logout_button := True\<rparr>) w)) = empty_session"
    by (simp add: main_def Let_def logout_empty)
next
  show "main E inp2 (w2\<lparr>sess := empty_session\<rparr>)
       = (if choice [''Login'', ''Sign Up''] 0 (auth_option inp2) = ''Login''
          then render_login E inp2
                 (st (Radio [Lit ''Choose an option:''] [''Login'', ''Sign Up''])
                    (st (Title ''Mental Health Assessment Platform'') (w2\<lparr>sess := empty_session\<rparr>)))
          else render_signup E inp2
                 (st (Radio [Lit ''Choose an option:''] [''Login'', ''Sign Up''])
                    (st (Title ''Mental Health Assessment Platform'') (w2\<lparr>sess := empty_session\<rparr>))))"
    by (simp add: main_def Let_def st_def empty_session_def)
next
  assume a: "current_user (sess (snd (main E inp2 (w2\<lparr>sess := empty_session\<rparr>)))) = Some uid"
  let ?w = "st (Radio [Lit ''Choose an option:''] [''Login'', ''Sign Up''])
              (st (Title ''Mental Health Assessment Platform'') (w2\<lparr>sess := empty_session\<rparr>))"
  have m: "main E inp2 (w2\<lparr>sess := empty_session\<rparr>)
       = (if choice [''Login'', ''Sign Up''] 0 (auth_option inp2) = ''Login''
          then render_login E inp2 ?w else render_signup E inp2 ?w)"
    by (simp add: main_def Let_def st_def empty_session_def)
  have w: "current_user (sess ?w) = None" "store ?w = store w2"
    by (simp_all add: st_def empty_session_def)
  show "(\<exists>u \<in> set (users (store w2)). u_user_id u = uid
            \<and> u_email u = typed '''' (text_input inp2 ''login_form'' ''Email'')
            \<and> u_password_hash u
                = hash_password E (typed '''' (text_input inp2 ''login_form'' ''Password'')))
        \<or> (choice [''Login'', ''Sign Up''] 0 (auth_option inp2) \<noteq> ''Login''
            \<and> fst (main E inp2 (w2\<lparr>sess := empty_session\<rparr>)) = Rerun
            \<and> uid = returning_user_id E (store w2))"
  proof (cases "choice [''Login'', ''Sign Up''] 0 (auth_option inp2) = ''Login''")
    case True
    let ?email = "typed '''' (text_input inp2 ''login_form'' ''Email'')"
    let ?password = "typed '''' (text_input inp2 ''login_form'' ''Password'')"
    let ?wl = "st (FormSubmitButton ''Login'') (st (PasswordInput ''Password'')
                 (st (TextInput ''Email'' '''' False) (st (Form [Lit ''login_form''])
                   (st (Subheader [Lit ''Login'']) ?w))))"
    have wl: "current_user (sess ?wl) = None" "store ?wl = store w2"
      by (simp_all add: st_def empty_session_def)
    obtain ok wl' where lg: "login_user E ?email ?password ?wl = (ok, wl')"
      by (cases "login_user E ?email ?password ?wl") auto
    from a m True lg wl have "current_user (sess wl') = Some uid"
      by (cases ok) (auto simp: render_login_def Let_def st_def split: if_splits)
    from login_user_Some[OF lg wl(1) this] wl(2) show ?thesis by simp
  next
    case False
    let ?email = "typed '''' (text_input inp2 ''signup_form'' ''Email'')"
    let ?password = "typed '''' (text_input inp2 ''signup_form'' ''Password'')"
    let ?department = "typed '''' (text_input inp2 ''signup_form'' ''Department'')"
    let ?city = "typed '''' (text_input inp2 ''signup_form'' ''City'')"
    let ?wr = "st (FormSubmitButton ''Sign Up'') (st (TextInput ''City'' '''' False)
                 (st (TextInput ''Department'' '''' False) (st (PasswordInput ''Password'')
                 (st (TextInput ''Email'' '''' False) (st (Form [Lit ''signup_form''])
                   (st (Subheader [Lit ''Sign Up'']) ?w))))))"
    have wr: "current_user (sess ?wr) = None" "store ?wr = store w2"
      by (simp_all add: st_def empty_session_def)
    obtain ok wr' where rg: "register_user E ?email ?password ?department ?city ?wr = (ok, wr')"
      by (cases "register_user E ?email ?password ?department ?city ?wr") auto
    have sub: "form_submit_button inp2 [Lit ''signup_form'']"
    proof (rule ccontr)
      assume "\<not> form_submit_button inp2 [Lit ''signup_form'']"
      with a m False wr show False by (simp add: render_signup_def Let_def)
    qed
    have ok: "ok"
    proof (rule ccontr)
      assume "\<not> ok"
      with rg wr have "current_user (sess wr') = None"
        by (auto simp: register_user_def Let_def connect_def close_def rollback_def commit_def
              split: if_splits)
      with a m False rg sub \<open>\<not> ok\<close> show False
        by (simp add: render_signup_def Let_def st_def)
    qed
    from a m False rg sub ok have cu: "current_user (sess wr') = Some uid"
      by (simp add: render_signup_def Let_def st_def)
    from rg ok cu wr have "uid = returning_user_id E (store w2)"
      by (auto simp: register_user_def Let_def connect_def split: if_splits)
    moreover from m False rg ok sub have "fst (main E inp2 (w2\<lparr>sess := empty_session\<rparr>)) = Rerun"
      by (simp add: render_signup_def Let_def)
    ultimately show ?thesis using False by simp
  qed
qed

lemmas page_defs = main_def navigation_def render_dashboard_def dashboard_page_def
  response_details_view_def get_user_profile_def get_user_settings_def
  get_user_assessment_history_def history_join_def history_group_def or_str_def choice_def
  render_login_def login_user_def hash_password_def typed_def

text \<open>The theorem at a logout of user 2 and at a login with the credentials of user 2.\<close>

theorem logout_clears_session_witness:
  "current_user (sess w1) \<noteq> None
   \<and> fst (main env0 (no_inputs\<lparr>logout_button := False\<rparr>) w1) = Done
   \<and> fst (main env0 (no_inputs\<lparr>logout_button := True\<rparr>) w1) = Rerun
   \<and> sess (snd (main env0 (no_inputs\<lparr>logout_button := True\<rparr>) w1)) = empty_session
   \<and> current_user (sess (snd (main env0 login_inputs (w1\<lparr>sess := empty_session\<rparr>)))) = Some 2
   \<and> (\<exists>u \<in> set (users (store w1)). u_user_id u = 2 \<and> u_email u = ''crew@example.org''
         \<and> u_password_hash u = hash_password env0 ''pw2'')"
proof -
  have h1: "current_user (sess w1) \<noteq> None
     \<and> fst (main env0 (no_inputs\<lparr>logout_button := False\<rparr>) w1) = Done"
    by (simp add: w1_def no_inputs_def page_defs save_defs ex_defs)
  have h2: "current_user (sess (snd (main env0 login_inputs (w1\<lparr>sess := empty_session\<rparr>)))) = Some 2"
    by (simp add: w1_def no_inputs_def login_inputs_def empty_session_def page_defs save_defs ex_defs)
  have h3: "choice [''Login'', ''Sign Up''] 0 (auth_option login_inputs) = ''Login''"
    "typed '''' (text_input login_inputs ''login_form'' ''Email'') = ''crew@example.org''"
    "typed '''' (text_input login_inputs ''login_form'' ''Password'') = ''pw2''"
    by (simp_all add: login_inputs_def no_inputs_def choice_def typed_def)
  note t = logout_clears_session[of _ w1 env0 no_inputs login_inputs w1 2]
  from t[THEN conjunct2, THEN conjunct1, rule_format, OF h1]
  have c1: "fst (main env0 (no_inputs\<lparr>logout_button := True\<rparr>) w1) = Rerun
        \<and> sess (snd (main env0 (no_inputs\<lparr>logout_button := True\<rparr>) w1)) = empty_session" .
  from t[THEN conjunct2, THEN conjunct2, THEN conjunct2, rule_format, OF h2]
  have c2: "\<exists>u \<in> set (users (store w1)). u_user_id u = 2 \<and> u_email u = ''crew@example.org''
         \<and> u_password_hash u = hash_password env0 ''pw2''"
    unfolding h3 by simp
  from h1 h2 c1 c2 show ?thesis by blast
qed

end
